theory Spec2Isabelle
  imports Main
begin

section \<open>Python values, as far as the framework looks at them\<close>

text \<open>
  The framework lives in \<^verbatim>\<open>shared/layer_framework/__init__.py\<close>. Its payloads are typed
  \<^verbatim>\<open>Any\<close>; the code applies three built-in operations to them: truth testing
  (\<^verbatim>\<open>if self.data\<close>), \<^verbatim>\<open>str\<close> and \<^verbatim>\<open>type(x).__name__\<close>. The values below carry
  exactly what these operations need.

  An exception is an instance of Python's \<^verbatim>\<open>Exception\<close>, given by its class name and by
  what \<^verbatim>\<open>str(e)\<close> does: it returns the text of the exception or, when the \<^verbatim>\<open>__str__\<close> of
  the class raises, it raises in turn. Every handler of the framework is
  \<^verbatim>\<open>except Exception\<close>; interpreter signals outside that class (keyboard interrupt, task
  cancellation) are not part of the model.
\<close>

datatype exn = Exn (exn_class: string) (exn_str: "exn + string")

text \<open>
  \<open>PObject cls truth s r\<close> is an instance of a user class \<open>cls\<close>: \<open>truth\<close> is what
  \<^verbatim>\<open>bool(x)\<close> does (a value or an exception), \<open>s\<close> what \<^verbatim>\<open>str(x)\<close> does and \<open>r\<close> what
  \<^verbatim>\<open>repr(x)\<close> does. A character is a code point below 256, so that \<open>length\<close> counts
  what Python's \<^verbatim>\<open>len\<close> counts on such strings. An integer is one the interpreter
  converts to text, that is, within its limit on the number of digits (4300 by default).
\<close>

datatype pyval =
    PNone
  | PBool bool
  | PInt int
  | PStr string
  | PList "pyval list"
  | PDict "(pyval \<times> pyval) list"
  | PObject string "exn + bool" "exn + string" "exn + string"

fun truthy :: "pyval \<Rightarrow> exn + bool" where
  "truthy PNone = Inr False"
| "truthy (PBool b) = Inr b"
| "truthy (PInt i) = Inr (i \<noteq> 0)"
| "truthy (PStr s) = Inr (s \<noteq> [])"
| "truthy (PList xs) = Inr (xs \<noteq> [])"
| "truthy (PDict kvs) = Inr (kvs \<noteq> [])"
| "truthy (PObject cls truth s r) = truth"

fun type_name :: "pyval \<Rightarrow> string" where
  "type_name PNone = ''NoneType''"
| "type_name (PBool b) = ''bool''"
| "type_name (PInt i) = ''int''"
| "type_name (PStr s) = ''str''"
| "type_name (PList xs) = ''list''"
| "type_name (PDict kvs) = ''dict''"
| "type_name (PObject cls truth s r) = cls"

subsection \<open>\<^verbatim>\<open>str\<close> and \<^verbatim>\<open>repr\<close>\<close>

fun str_nat :: "nat \<Rightarrow> string" where
  "str_nat n =
     (if n < 10 then [''0123456789'' ! n]
      else str_nat (n div 10) @ [''0123456789'' ! (n mod 10)])"

declare str_nat.simps [simp del]

definition str_int :: "int \<Rightarrow> string" where
  "str_int i = (if i < 0 then ''-'' @ str_nat (nat (- i)) else str_nat (nat i))"

definition hex2 :: "nat \<Rightarrow> string" where
  "hex2 n = [''0123456789abcdef'' ! (n div 16 mod 16), ''0123456789abcdef'' ! (n mod 16)]"

definition is_printable :: "char \<Rightarrow> bool" where
  "is_printable c =
     (let n = (of_char c :: nat) in (32 \<le> n \<and> n < 127) \<or> (161 \<le> n \<and> n \<noteq> 173))"

text \<open>\<open>escape_char q c\<close>: how \<^verbatim>\<open>repr\<close> writes the character \<open>c\<close> between quotes \<open>q\<close>.\<close>

definition escape_char :: "char \<Rightarrow> char \<Rightarrow> string" where
  "escape_char q c =
     (if c = q \<or> c = CHR 0x5C then [CHR 0x5C, c]
      else if c = CHR 0x09 then [CHR 0x5C, CHR ''t'']
      else if c = CHR 0x0A then [CHR 0x5C, CHR ''n'']
      else if c = CHR 0x0D then [CHR 0x5C, CHR ''r'']
      else if is_printable c then [c]
      else [CHR 0x5C, CHR ''x''] @ hex2 (of_char c))"

definition repr_str :: "string \<Rightarrow> string" where
  "repr_str s =
     (let q = (if CHR 0x27 \<in> set s \<and> CHR 0x22 \<notin> set s then CHR 0x22 else CHR 0x27)
      in [q] @ concat (map (escape_char q) s) @ [q])"

fun join :: "string \<Rightarrow> string list \<Rightarrow> string" where
  "join sep [] = []"
| "join sep [x] = x"
| "join sep (x # y # ys) = x @ sep @ join sep (y # ys)"

text \<open>Evaluating a list of computations from left to right: the first exception wins.\<close>

fun sequence :: "(exn + 'a) list \<Rightarrow> exn + 'a list" where
  "sequence [] = Inr []"
| "sequence (Inl e # rs) = Inl e"
| "sequence (Inr x # rs) = (case sequence rs of Inl e \<Rightarrow> Inl e | Inr xs \<Rightarrow> Inr (x # xs))"

definition dict_item :: "(exn + string) \<times> (exn + string) \<Rightarrow> exn + string" where
  "dict_item kv =
     (case fst kv of
        Inl e \<Rightarrow> Inl e
      | Inr k \<Rightarrow> (case snd kv of Inl e \<Rightarrow> Inl e | Inr v \<Rightarrow> Inr (k @ '': '' @ v)))"

primrec py_repr :: "pyval \<Rightarrow> exn + string" where
  "py_repr PNone = Inr ''None''"
| "py_repr (PBool b) = Inr (if b then ''True'' else ''False'')"
| "py_repr (PInt i) = Inr (str_int i)"
| "py_repr (PStr s) = Inr (repr_str s)"
| "py_repr (PList xs) =
     (case sequence (map py_repr xs) of
        Inl e \<Rightarrow> Inl e
      | Inr rs \<Rightarrow> Inr (''['' @ join '', '' rs @ '']''))"
| "py_repr (PDict kvs) =
     (case sequence (map dict_item (map (map_prod py_repr py_repr) kvs)) of
        Inl e \<Rightarrow> Inl e
      | Inr rs \<Rightarrow> Inr (''{'' @ join '', '' rs @ ''}''))"
| "py_repr (PObject cls truth s r) = r"

fun py_str :: "pyval \<Rightarrow> exn + string" where
  "py_str (PStr s) = Inr s"
| "py_str (PObject cls truth s r) = s"
| "py_str v = py_repr v"

section \<open>The data model\<close>

datatype layer_type = TOP | MIDDLE | BOTTOM

fun layer_type_value :: "layer_type \<Rightarrow> string" where
  "layer_type_value TOP = ''top''"
| "layer_type_value MIDDLE = ''middle''"
| "layer_type_value BOTTOM = ''bottom''"

datatype validation_status = PASSED | FAILED | WARNING

text \<open>
  A \<^verbatim>\<open>datetime\<close> is represented by its \<^verbatim>\<open>isoformat()\<close> text; a \<^verbatim>\<open>Dict[str, Any]\<close> by
  an association list in insertion order.
\<close>

type_synonym datetime = string
type_synonym py_dict = "(string \<times> pyval) list"

text \<open>
  \<^verbatim>\<open>LayerExpectation\<close>. The two methods are fields, since a subclass may override them;
  \<open>LayerExpectation\<close> below builds an instance of the class itself, whose methods return
  \<^verbatim>\<open>True\<close>. The field \<open>exp_layer_type\<close> is the attribute \<^verbatim>\<open>layer_type\<close>.
\<close>

record layer_expectation =
  exp_layer_type :: layer_type
  input_schema :: py_dict
  output_schema :: py_dict
  validation_rules :: "string list"
  quality_requirements :: py_dict
  performance_constraints :: py_dict
  validate_input :: "pyval \<Rightarrow> exn + bool"
  validate_output :: "pyval \<Rightarrow> exn + bool"

definition LayerExpectation ::
  "layer_type \<Rightarrow> py_dict \<Rightarrow> py_dict \<Rightarrow> string list \<Rightarrow> py_dict \<Rightarrow> py_dict \<Rightarrow> layer_expectation" where
  "LayerExpectation lt isch osch rules quality perf =
     \<lparr> exp_layer_type = lt, input_schema = isch, output_schema = osch,
       validation_rules = rules, quality_requirements = quality,
       performance_constraints = perf,
       validate_input = (\<lambda>data. Inr True), validate_output = (\<lambda>data. Inr True) \<rparr>"

record buffer_validation =
  status :: validation_status
  message :: string
  timestamp :: datetime
  layer_from :: layer_type
  layer_to :: layer_type
  data_size :: int
  validation_details :: py_dict

record direction_buffer =
  source_layer :: layer_type
  target_layer :: layer_type
  expectations :: layer_expectation
  data :: pyval
  metadata :: py_dict
  validation_results :: "buffer_validation list"

section \<open>The world outside the objects\<close>

text \<open>
  \<open>user\<close> is the state the stage hooks of an application read and write; \<open>clock\<close> and
  \<open>ticks\<close> give the readings of \<^verbatim>\<open>datetime.now()\<close> (the \<open>k\<close>-th call returns
  \<open>clock k\<close>); \<open>log_records\<close> is what the module's \<^verbatim>\<open>logger\<close> has been given.
\<close>

datatype log_level = LOG_INFO | LOG_WARNING

record 'u world =
  user :: 'u
  clock :: "nat \<Rightarrow> datetime"
  ticks :: nat
  log_records :: "(log_level \<times> string) list"

definition datetime_now :: "'u world \<Rightarrow> datetime \<times> 'u world" where
  "datetime_now w = (clock w (ticks w), w\<lparr>ticks := Suc (ticks w)\<rparr>)"

definition logger_info :: "string \<Rightarrow> 'u world \<Rightarrow> 'u world" where
  "logger_info msg w = w\<lparr>log_records := log_records w @ [(LOG_INFO, msg)]\<rparr>"

definition logger_warning :: "string \<Rightarrow> 'u world \<Rightarrow> 'u world" where
  "logger_warning msg w = w\<lparr>log_records := log_records w @ [(LOG_WARNING, msg)]\<rparr>"

section \<open>\<^verbatim>\<open>DirectionBuffer.validate\<close>\<close>

text \<open>
  The expression \<^verbatim>\<open>len(str(self.data)) if self.data else 0\<close>: the truth test runs first,
  \<^verbatim>\<open>str\<close> only on a true payload, and either may raise.
\<close>

definition payload_size :: "pyval \<Rightarrow> exn + int" where
  "payload_size d =
     (case truthy d of
        Inl e \<Rightarrow> Inl e
      | Inr t \<Rightarrow>
          if t then (case py_str d of Inl e \<Rightarrow> Inl e | Inr s \<Rightarrow> Inr (int (length s)))
          else Inr 0)"

definition append_validation :: "direction_buffer \<Rightarrow> buffer_validation \<Rightarrow> direction_buffer" where
  "append_validation self validation =
     self\<lparr>validation_results := validation_results self @ [validation]\<rparr>"

text \<open>
  The \<^verbatim>\<open>try\<close> block. The keyword arguments of \<^verbatim>\<open>BufferValidation(...)\<close> are evaluated in
  the order written, so the clock is read before the size is computed; the \<^verbatim>\<open>append\<close> is
  the last statement, so a block that raises has left the buffer as it was.
\<close>

definition validate_try ::
  "direction_buffer \<Rightarrow> 'u world \<Rightarrow> (exn + buffer_validation \<times> direction_buffer) \<times> 'u world" where
  "validate_try self w =
     (case validate_input (expectations self) (data self) of
        Inl e \<Rightarrow> (Inl e, w)
      | Inr input_valid \<Rightarrow>
          (let st = (if input_valid then PASSED else FAILED);
               msg = (if input_valid then ''Buffer validation passed''
                      else ''Buffer validation failed'');
               (now, w1) = datetime_now w
           in case payload_size (data self) of
                Inl e \<Rightarrow> (Inl e, w1)
              | Inr n \<Rightarrow>
                  (let validation =
                         \<lparr> status = st, message = msg, timestamp = now,
                           layer_from = source_layer self, layer_to = target_layer self,
                           data_size = n,
                           validation_details = [(''input_valid'', PBool input_valid)] \<rparr>
                   in (Inr (validation, append_validation self validation), w1))))"

text \<open>
  The \<^verbatim>\<open>except Exception as e\<close> block. It calls \<^verbatim>\<open>str(e)\<close>, for the message first, and no
  handler is around it: when \<^verbatim>\<open>str(e)\<close> raises, that exception leaves \<^verbatim>\<open>validate\<close>, before
  the clock is read and with nothing appended.
\<close>

definition validate_except ::
  "direction_buffer \<Rightarrow> exn \<Rightarrow> 'u world \<Rightarrow> (exn + buffer_validation \<times> direction_buffer) \<times> 'u world" where
  "validate_except self e w =
     (case exn_str e of
        Inl e' \<Rightarrow> (Inl e', w)
      | Inr text \<Rightarrow>
          (let (now, w1) = datetime_now w;
               validation =
                 \<lparr> status = FAILED, message = ''Buffer validation error: '' @ text,
                   timestamp = now,
                   layer_from = source_layer self, layer_to = target_layer self,
                   data_size = 0,
                   validation_details = [(''error'', PStr text)] \<rparr>
           in (Inr (validation, append_validation self validation), w1)))"

text \<open>
  The whole method. \<open>Inr (validation, self')\<close> is the outcome returned and the buffer as the
  call left it; \<open>Inl e\<close> is an exception that leaves the method, the buffer being as it was.
\<close>

definition validate ::
  "direction_buffer \<Rightarrow> 'u world \<Rightarrow> (exn + buffer_validation \<times> direction_buffer) \<times> 'u world" where
  "validate self w =
     (case validate_try self w of
        (Inr res, w1) \<Rightarrow> (Inr res, w1)
      | (Inl e, w1) \<Rightarrow> validate_except self e w1)"

section \<open>Stages\<close>

text \<open>
  \<^verbatim>\<open>LayerInterface\<close>. The attribute \<^verbatim>\<open>expectations\<close> of a stage is the field
  \<open>stage_expectations\<close> (the buffer has an attribute of the same name). A buffer is held
  by value; where two attributes refer to one buffer object, the orchestrator below keeps
  the two copies equal.
\<close>

record layer_interface =
  layer_type :: layer_type
  stage_expectations :: layer_expectation
  input_buffer :: "direction_buffer option"
  output_buffer :: "direction_buffer option"

definition set_input_buffer ::
  "'a layer_interface_scheme \<Rightarrow> direction_buffer \<Rightarrow> 'a layer_interface_scheme" where
  "set_input_buffer self buffer = self\<lparr>input_buffer := Some buffer\<rparr>"

definition create_output_buffer ::
  "'a layer_interface_scheme \<Rightarrow> layer_type \<Rightarrow> pyval \<Rightarrow> 'u world \<Rightarrow>
     direction_buffer \<times> 'a layer_interface_scheme \<times> 'u world" where
  "create_output_buffer self target data_out w =
     (let target_expectations =
            LayerExpectation target (output_schema (stage_expectations self)) [] [] [] [];
          (now, w1) = datetime_now w;
          buffer =
            \<lparr> source_layer = layer_type self, target_layer = target,
              expectations = target_expectations, data = data_out,
              metadata = [(''created_at'', PStr now),
                          (''source_layer_type'', PStr (layer_type_value (layer_type self)))],
              validation_results = [] \<rparr>
      in (buffer, self\<lparr>output_buffer := Some buffer\<rparr>, w1))"

text \<open>
  The abstract methods of a stage are fields of its record: a hook takes the input and the
  application's state and returns a value or raises, with the state it leaves behind.
\<close>

type_synonym 'u hook = "pyval \<Rightarrow> 'u \<Rightarrow> (exn + pyval) \<times> 'u"

record 'u top_layer = layer_interface +
  workflow_definition :: py_dict
  middle_layer_requirements :: py_dict
  bottom_layer_requirements :: py_dict
  orchestrate :: "'u hook"

text \<open>
  \<^verbatim>\<open>MiddleLayer\<close>. \<open>check_quality_gate\<close> is the method \<^verbatim>\<open>_check_quality_gate\<close>, which
  returns \<^verbatim>\<open>True\<close> in the class itself and is open to a subclass.
\<close>

record 'u middle_layer = layer_interface +
  processing_config :: py_dict
  quality_gates :: "string list"
  execute_core_logic :: "'u hook"
  check_quality_gate :: "string \<Rightarrow> pyval \<Rightarrow> bool"

text \<open>
  \<^verbatim>\<open>BottomLayer\<close>. \<open>apply_finalization_rule\<close> is \<^verbatim>\<open>_apply_finalization_rule\<close> (the
  identity in the class itself), \<open>validate_output_with\<close> is \<^verbatim>\<open>_validate_output\<close>
  (\<^verbatim>\<open>True\<close> in the class itself).
\<close>

record 'u bottom_layer = layer_interface +
  finalization_rules :: "string list"
  output_validators :: "string list"
  finalize_output :: "'u hook"
  apply_finalization_rule :: "string \<Rightarrow> pyval \<Rightarrow> pyval"
  validate_output_with :: "string \<Rightarrow> pyval \<Rightarrow> bool"

definition quality_gate_warning :: "string \<Rightarrow> string" where
  "quality_gate_warning gate = ''Quality gate '' @ [CHR 0x27] @ gate @ [CHR 0x27] @ '' failed''"

definition output_validator_warning :: "string \<Rightarrow> string" where
  "output_validator_warning validator =
     ''Output validator '' @ [CHR 0x27] @ validator @ [CHR 0x27] @ '' failed''"

text \<open>The loop over \<^verbatim>\<open>self.quality_gates\<close>.\<close>

fun apply_quality_gates ::
  "(string \<Rightarrow> pyval \<Rightarrow> bool) \<Rightarrow> string list \<Rightarrow> pyval \<Rightarrow> 'u world \<Rightarrow> 'u world" where
  "apply_quality_gates chk [] result w = w"
| "apply_quality_gates chk (gate # gates) result w =
     apply_quality_gates chk gates result
       (if \<not> chk gate result then logger_warning (quality_gate_warning gate) w else w)"

text \<open>The loop over \<^verbatim>\<open>self.finalization_rules\<close>, which rebinds \<^verbatim>\<open>input_data\<close>.\<close>

fun apply_finalization_rules ::
  "(string \<Rightarrow> pyval \<Rightarrow> pyval) \<Rightarrow> string list \<Rightarrow> pyval \<Rightarrow> pyval" where
  "apply_finalization_rules f [] input_data = input_data"
| "apply_finalization_rules f (rule # rules) input_data =
     apply_finalization_rules f rules (f rule input_data)"

text \<open>The loop over \<^verbatim>\<open>self.output_validators\<close>.\<close>

fun run_output_validators ::
  "(string \<Rightarrow> pyval \<Rightarrow> bool) \<Rightarrow> string list \<Rightarrow> pyval \<Rightarrow> 'u world \<Rightarrow> 'u world" where
  "run_output_validators chk [] result w = w"
| "run_output_validators chk (validator # validators) result w =
     run_output_validators chk validators result
       (if \<not> chk validator result then logger_warning (output_validator_warning validator) w
        else w)"

text \<open>
  \<^verbatim>\<open>MiddleLayer.process\<close>. An instance of \<^verbatim>\<open>DirectionBuffer\<close> is true, so
  \<^verbatim>\<open>if self.input_buffer\<close> asks whether a buffer is set; an exception that leaves
  \<^verbatim>\<open>validate\<close> leaves \<^verbatim>\<open>process\<close> too. The result is the outcome, the stage object
  afterwards and the world afterwards.
\<close>

definition MiddleLayer_process ::
  "'u middle_layer \<Rightarrow> pyval \<Rightarrow> 'u world \<Rightarrow> (exn + pyval) \<times> 'u middle_layer \<times> 'u world" where
  "MiddleLayer_process self input_data w =
     (let (blocked, self1, w1) =
            (case input_buffer self of
               None \<Rightarrow> (None, self, w)
             | Some buffer \<Rightarrow>
                 (case validate buffer w of
                    (Inl e, w1) \<Rightarrow> (Some e, self, w1)
                  | (Inr (validation, buffer1), w1) \<Rightarrow>
                      (let self1 = self\<lparr>input_buffer := Some buffer1\<rparr>
                       in if status validation = FAILED
                          then (Some (Exn ''ValueError''
                                        (Inr (''Input validation failed: ''
                                              @ message validation))),
                                self1, w1)
                          else (None, self1, w1))))
      in case blocked of
           Some e \<Rightarrow> (Inl e, self1, w1)
         | None \<Rightarrow>
             (let (r, u2) = execute_core_logic self input_data (user w1);
                  w2 = w1\<lparr>user := u2\<rparr>
              in case r of
                   Inl e \<Rightarrow> (Inl e, self1, w2)
                 | Inr result \<Rightarrow>
                     (Inr result, self1,
                      apply_quality_gates (check_quality_gate self) (quality_gates self)
                        result w2)))"

text \<open>\<^verbatim>\<open>BottomLayer.process\<close>.\<close>

definition BottomLayer_process ::
  "'u bottom_layer \<Rightarrow> pyval \<Rightarrow> 'u world \<Rightarrow> (exn + pyval) \<times> 'u bottom_layer \<times> 'u world" where
  "BottomLayer_process self input_data w =
     (let (blocked, self1, w1) =
            (case input_buffer self of
               None \<Rightarrow> (None, self, w)
             | Some buffer \<Rightarrow>
                 (case validate buffer w of
                    (Inl e, w1) \<Rightarrow> (Some e, self, w1)
                  | (Inr (validation, buffer1), w1) \<Rightarrow>
                      (let self1 = self\<lparr>input_buffer := Some buffer1\<rparr>
                       in if status validation = FAILED
                          then (Some (Exn ''ValueError''
                                        (Inr (''Input validation failed: ''
                                              @ message validation))),
                                self1, w1)
                          else (None, self1, w1))))
      in case blocked of
           Some e \<Rightarrow> (Inl e, self1, w1)
         | None \<Rightarrow>
             (let input_data1 =
                    apply_finalization_rules (apply_finalization_rule self)
                      (finalization_rules self) input_data;
                  (r, u2) = finalize_output self input_data1 (user w1);
                  w2 = w1\<lparr>user := u2\<rparr>
              in case r of
                   Inl e \<Rightarrow> (Inl e, self1, w2)
                 | Inr result \<Rightarrow>
                     (Inr result, self1,
                      run_output_validators (validate_output_with self) (output_validators self)
                        result w2)))"

text \<open>
  \<^verbatim>\<open>TopLayer\<close> leaves \<^verbatim>\<open>process\<close> abstract. Every subclass of it in the repository
  (\<^verbatim>\<open>FactCheckAuditor\<close> in \<^verbatim>\<open>fact_checking.py\<close>, inherited by both auditor adapters,
  \<^verbatim>\<open>SimpleAuditor\<close> in \<^verbatim>\<open>simplified_demo.py\<close>, \<^verbatim>\<open>TestTopLayer\<close> in
  \<^verbatim>\<open>simple_test.py\<close>) defines it by the same line,
  \<^verbatim>\<open>return await self.orchestrate(input_data)\<close>.
\<close>

definition FactCheckAuditor_process ::
  "'u top_layer \<Rightarrow> pyval \<Rightarrow> 'u world \<Rightarrow> (exn + pyval) \<times> 'u top_layer \<times> 'u world" where
  "FactCheckAuditor_process self input_data w =
     (let (r, u1) = orchestrate self input_data (user w) in (r, self, w\<lparr>user := u1\<rparr>))"

section \<open>The orchestrator\<close>

text \<open>
  An entry of \<^verbatim>\<open>execution_log\<close>; \<open>entry_timestamp\<close> is its key \<^verbatim>\<open>"timestamp"\<close>. Both
  callers of \<^verbatim>\<open>_log_execution\<close> pass a dictionary from strings to strings.
\<close>

record log_entry =
  entry_timestamp :: datetime
  event :: string
  details :: "(string \<times> string) list"

record 'u three_layer_orchestrator =
  top_layer :: "'u top_layer"
  middle_layer :: "'u middle_layer"
  bottom_layer :: "'u bottom_layer"
  execution_log :: "log_entry list"

text \<open>\<^verbatim>\<open>str\<close> of a dictionary whose keys and values are strings.\<close>

definition str_details :: "(string \<times> string) list \<Rightarrow> string" where
  "str_details ds =
     ''{'' @ join '', '' (map (\<lambda>kv. repr_str (fst kv) @ '': '' @ repr_str (snd kv)) ds) @ ''}''"

definition log_execution ::
  "string \<Rightarrow> (string \<times> string) list \<Rightarrow> 'u three_layer_orchestrator \<Rightarrow> 'u world \<Rightarrow>
     'u three_layer_orchestrator \<times> 'u world" where
  "log_execution ev ds self w =
     (let (now, w1) = datetime_now w;
          entry = \<lparr> entry_timestamp = now, event = ev, details = ds \<rparr>
      in (self\<lparr>execution_log := execution_log self @ [entry]\<rparr>,
          logger_info (''3-Layer Workflow: '' @ ev @ '' - '' @ str_details ds) w1))"

text \<open>
  The stage objects after a call of \<^verbatim>\<open>process\<close>. The buffer the middle stage validated
  is the object \<^verbatim>\<open>top_layer.output_buffer\<close> refers to, and the one the bottom stage
  validated is \<^verbatim>\<open>middle_layer.output_buffer\<close>: the upstream copy follows.
\<close>

definition middle_processed ::
  "'u three_layer_orchestrator \<Rightarrow> 'u middle_layer \<Rightarrow> 'u three_layer_orchestrator" where
  "middle_processed self mid =
     self\<lparr>middle_layer := mid,
          top_layer := (top_layer self)\<lparr>output_buffer := input_buffer mid\<rparr>\<rparr>"

definition bottom_processed ::
  "'u three_layer_orchestrator \<Rightarrow> 'u bottom_layer \<Rightarrow> 'u three_layer_orchestrator" where
  "bottom_processed self bottom =
     self\<lparr>bottom_layer := bottom,
          middle_layer := (middle_layer self)\<lparr>output_buffer := input_buffer bottom\<rparr>\<rparr>"

text \<open>
  \<^verbatim>\<open>execute_workflow\<close> calls \<^verbatim>\<open>process\<close> on the three stage objects it was built with;
  which method that is depends on their classes, so the three implementations \<open>tp\<close>,
  \<open>mp\<close> and \<open>bp\<close> are parameters. First the \<^verbatim>\<open>try\<close> block.
\<close>

type_synonym ('s, 'u) process = "'s \<Rightarrow> pyval \<Rightarrow> 'u world \<Rightarrow> (exn + pyval) \<times> 's \<times> 'u world"

definition execute_workflow_try ::
  "('u top_layer, 'u) process \<Rightarrow> ('u middle_layer, 'u) process \<Rightarrow>
   ('u bottom_layer, 'u) process \<Rightarrow>
   'u three_layer_orchestrator \<Rightarrow> pyval \<Rightarrow> 'u world \<Rightarrow>
     (exn + pyval) \<times> 'u three_layer_orchestrator \<times> 'u world" where
  "execute_workflow_try tp mp bp self initial_input w =
     (let (self1, w1) =
            log_execution ''workflow_start'' [(''input_type'', type_name initial_input)] self w
      in case tp (top_layer self1) initial_input w1 of
           (Inl e, top1, w2) \<Rightarrow> (Inl e, self1\<lparr>top_layer := top1\<rparr>, w2)
         | (Inr top_result, top1, w2) \<Rightarrow>
             (let (top_to_middle_buffer, top2, w3) =
                    create_output_buffer top1 MIDDLE top_result w2;
                  self2 = self1\<lparr>top_layer := top2,
                               middle_layer :=
                                 set_input_buffer (middle_layer self1) top_to_middle_buffer\<rparr>
              in case mp (middle_layer self2) top_result w3 of
                   (Inl e, mid1, w4) \<Rightarrow> (Inl e, middle_processed self2 mid1, w4)
                 | (Inr middle_result, mid1, w4) \<Rightarrow>
                     (let self3 = middle_processed self2 mid1;
                          (middle_to_bottom_buffer, mid2, w5) =
                            create_output_buffer (middle_layer self3) BOTTOM middle_result w4;
                          self4 = self3\<lparr>middle_layer := mid2,
                                       bottom_layer :=
                                         set_input_buffer (bottom_layer self3)
                                           middle_to_bottom_buffer\<rparr>
                      in case bp (bottom_layer self4) middle_result w5 of
                           (Inl e, bot1, w6) \<Rightarrow> (Inl e, bottom_processed self4 bot1, w6)
                         | (Inr final_result, bot1, w6) \<Rightarrow>
                             (let (self5, w7) =
                                    log_execution ''workflow_complete''
                                      [(''output_type'', type_name final_result)]
                                      (bottom_processed self4 bot1) w6
                              in (Inr final_result, self5, w7)))))"

text \<open>
  The whole method: the \<^verbatim>\<open>try\<close> block under its \<^verbatim>\<open>except Exception as e\<close>. The handler
  evaluates \<^verbatim>\<open>str(e)\<close> for the argument of \<^verbatim>\<open>_log_execution\<close>; when that raises,
  nothing is logged and the exception of \<^verbatim>\<open>str(e)\<close> is the one that leaves the method.
\<close>

definition execute_workflow ::
  "('u top_layer, 'u) process \<Rightarrow> ('u middle_layer, 'u) process \<Rightarrow>
   ('u bottom_layer, 'u) process \<Rightarrow>
   'u three_layer_orchestrator \<Rightarrow> pyval \<Rightarrow> 'u world \<Rightarrow>
     (exn + pyval) \<times> 'u three_layer_orchestrator \<times> 'u world" where
  "execute_workflow tp mp bp self initial_input w =
     (case execute_workflow_try tp mp bp self initial_input w of
        (Inr final_result, self1, w1) \<Rightarrow> (Inr final_result, self1, w1)
      | (Inl e, self1, w1) \<Rightarrow>
          (case exn_str e of
             Inl e' \<Rightarrow> (Inl e', self1, w1)
           | Inr text \<Rightarrow>
               (let (self2, w2) = log_execution ''workflow_error'' [(''error'', text)] self1 w1
                in (Inl e, self2, w2))))"

section \<open>Concrete objects\<close>

text \<open>Expectations, payloads, buffers and a world on which the theorems below are run.\<close>

definition permissive_expectation :: layer_expectation where
  "permissive_expectation = LayerExpectation MIDDLE [] [] [] [] []"

definition rejecting_expectation :: layer_expectation where
  "rejecting_expectation = permissive_expectation\<lparr>validate_input := (\<lambda>d. Inr False)\<rparr>"

definition raising_expectation :: layer_expectation where
  "raising_expectation =
     permissive_expectation\<lparr>validate_input := (\<lambda>d. Inl (Exn ''TypeError'' (Inr ''schema mismatch'')))\<rparr>"

text \<open>
  An exception whose \<^verbatim>\<open>__str__\<close> raises a \<^verbatim>\<open>RuntimeError\<close>, and an expectation whose
  predicate raises it.
\<close>

definition unprintable_error :: exn where
  "unprintable_error = Exn ''SchemaError'' (Inl (Exn ''RuntimeError'' (Inr ''no text'')))"

definition unprintable_expectation :: layer_expectation where
  "unprintable_expectation =
     permissive_expectation\<lparr>validate_input := (\<lambda>d. Inl unprintable_error)\<rparr>"

definition buffer_of :: "layer_expectation \<Rightarrow> pyval \<Rightarrow> direction_buffer" where
  "buffer_of ex d =
     \<lparr> source_layer = TOP, target_layer = MIDDLE, expectations = ex, data = d,
       metadata = [], validation_results = [] \<rparr>"

definition qa_payload :: pyval where
  "qa_payload = PDict [(PStr ''question'', PStr ''Q''), (PStr ''answer'', PStr ''A'')]"

definition opaque_payload :: pyval where
  "opaque_payload =
     PObject ''Opaque'' (Inr True) (Inl (Exn ''RuntimeError'' (Inr ''no text'')))
       (Inl (Exn ''RuntimeError'' (Inr ''no text'')))"

text \<open>The application state of the examples is the list of the hooks that have run.\<close>

definition world0 :: "string list world" where
  "world0 = \<lparr> user = [], clock = (\<lambda>k. ''t'' @ str_nat k), ticks = 0, log_records = [] \<rparr>"

definition auditor :: "string list top_layer" where
  "auditor =
     \<lparr> layer_type = TOP,
       stage_expectations =
         LayerExpectation TOP [] [(''type'', PStr ''object'')] [''question_must_be_non_empty'']
           [] [],
       input_buffer = None, output_buffer = None,
       workflow_definition = [], middle_layer_requirements = [],
       bottom_layer_requirements = [],
       orchestrate = (\<lambda>x u. (Inr (PList [PStr ''orchestrated'', x]), u @ [''orchestrate''])) \<rparr>"

definition critic :: "string list middle_layer" where
  "critic =
     \<lparr> layer_type = MIDDLE,
       stage_expectations = LayerExpectation MIDDLE [] [(''type'', PStr ''analysis'')] [] [] [],
       input_buffer = None, output_buffer = None,
       processing_config = [],
       quality_gates = [''sufficient_claims_extracted'', ''adequate_evidence_gathered''],
       execute_core_logic =
         (\<lambda>x u. (Inr (PList [PStr ''processed'', x]), u @ [''execute_core_logic''])),
       check_quality_gate = (\<lambda>gate result. gate \<noteq> ''adequate_evidence_gathered'') \<rparr>"

definition reviser :: "string list bottom_layer" where
  "reviser =
     \<lparr> layer_type = BOTTOM,
       stage_expectations = LayerExpectation BOTTOM [] [] [] [] [],
       input_buffer = None, output_buffer = None,
       finalization_rules = [''trim''],
       output_validators = [''strict'', ''lenient''],
       finalize_output =
         (\<lambda>x u. (Inr (PList [PStr ''finalized'', x]), u @ [''finalize_output''])),
       apply_finalization_rule = (\<lambda>rule x. PList [PStr rule, x]),
       validate_output_with = (\<lambda>validator result. validator \<noteq> ''strict'') \<rparr>"

definition orchestrator0 :: "string list three_layer_orchestrator" where
  "orchestrator0 =
     \<lparr> top_layer = auditor, middle_layer = critic, bottom_layer = reviser,
       execution_log = [] \<rparr>"

text \<open>
  Ways for a run to fail: the top stage hands on a payload whose \<^verbatim>\<open>str\<close> raises, so
  that the middle stage's inbound validation fails; the hook of the top stage raises; the
  hook of the bottom stage raises; the hook of the top stage raises an exception whose
  \<^verbatim>\<open>__str__\<close> raises.
\<close>

definition orchestrator_blocked :: "string list three_layer_orchestrator" where
  "orchestrator_blocked =
     orchestrator0
       \<lparr>top_layer :=
          auditor\<lparr>orchestrate := (\<lambda>x u. (Inr opaque_payload, u @ [''orchestrate'']))\<rparr>\<rparr>"

definition orchestrator_top_raises :: "string list three_layer_orchestrator" where
  "orchestrator_top_raises =
     orchestrator0
       \<lparr>top_layer :=
          auditor\<lparr>orchestrate :=
                    (\<lambda>x u. (Inl (Exn ''RuntimeError'' (Inr ''planner unavailable'')),
                            u @ [''orchestrate'']))\<rparr>\<rparr>"

definition orchestrator_bottom_raises :: "string list three_layer_orchestrator" where
  "orchestrator_bottom_raises =
     orchestrator0
       \<lparr>bottom_layer :=
          reviser\<lparr>finalize_output :=
                    (\<lambda>x u. (Inl (Exn ''RuntimeError'' (Inr ''revision failed'')),
                            u @ [''finalize_output'']))\<rparr>\<rparr>"

definition orchestrator_unprintable :: "string list three_layer_orchestrator" where
  "orchestrator_unprintable =
     orchestrator0
       \<lparr>top_layer :=
          auditor\<lparr>orchestrate := (\<lambda>x u. (Inl unprintable_error, u @ [''orchestrate'']))\<rparr>\<rparr>"
section \<open>Properties of \<^verbatim>\<open>DirectionBuffer.validate\<close>\<close>

lemmas ex_defs = permissive_expectation_def rejecting_expectation_def raising_expectation_def
  unprintable_expectation_def unprintable_error_def
  buffer_of_def qa_payload_def opaque_payload_def world0_def LayerExpectation_def

lemma validate_input_raises:
  "validate_input (expectations self) (data self) = Inl e \<Longrightarrow>
   validate self w = validate_except self e w"
  by (simp add: validate_def validate_try_def)

lemma validate_size_raises:
  "validate_input (expectations self) (data self) = Inr ok \<Longrightarrow> payload_size (data self) = Inl e \<Longrightarrow>
   validate self w = validate_except self e (snd (datetime_now w))"
  by (simp add: validate_def validate_try_def Let_def split: prod.splits)

lemma validate_normal:
  "validate_input (expectations self) (data self) = Inr ok \<Longrightarrow> payload_size (data self) = Inr n \<Longrightarrow>
   validate self w =
     (Inr (\<lparr> status = (if ok then PASSED else FAILED),
             message = (if ok then ''Buffer validation passed'' else ''Buffer validation failed''),
             timestamp = clock w (ticks w),
             layer_from = source_layer self, layer_to = target_layer self,
             data_size = n, validation_details = [(''input_valid'', PBool ok)] \<rparr>,
           append_validation self
             \<lparr> status = (if ok then PASSED else FAILED),
               message = (if ok then ''Buffer validation passed''
                          else ''Buffer validation failed''),
               timestamp = clock w (ticks w),
               layer_from = source_layer self, layer_to = target_layer self,
               data_size = n, validation_details = [(''input_valid'', PBool ok)] \<rparr>),
      w\<lparr>ticks := Suc (ticks w)\<rparr>)"
  by (simp add: validate_def validate_try_def Let_def datetime_now_def split: prod.splits)

lemma validate_except_text:
  "exn_str e = Inr text \<Longrightarrow>
   validate_except self e w =
     (Inr (\<lparr> status = FAILED, message = ''Buffer validation error: '' @ text,
             timestamp = clock w (ticks w),
             layer_from = source_layer self, layer_to = target_layer self,
             data_size = 0, validation_details = [(''error'', PStr text)] \<rparr>,
           append_validation self
             \<lparr> status = FAILED, message = ''Buffer validation error: '' @ text,
               timestamp = clock w (ticks w),
               layer_from = source_layer self, layer_to = target_layer self,
               data_size = 0, validation_details = [(''error'', PStr text)] \<rparr>),
      w\<lparr>ticks := Suc (ticks w)\<rparr>)"
  by (simp add: validate_except_def Let_def datetime_now_def)

lemma validate_except_raises:
  "exn_str e = Inl e' \<Longrightarrow> validate_except self e w = (Inl e', w)"
  by (simp add: validate_except_def)

lemma validate_returns:
  assumes "validate self w = (Inr (v, b'), w')"
  shows "b' = append_validation self v"
    and "layer_from v = source_layer self" and "layer_to v = target_layer self"
    and "status v = PASSED \<or> status v = FAILED"
  using assms
  by (auto simp: validate_def validate_try_def validate_except_def datetime_now_def Let_def
      split: sum.splits prod.splits if_splits)

lemma validate_world:
  "user (snd (validate self w)) = user w" "log_records (snd (validate self w)) = log_records w"
  "clock (snd (validate self w)) = clock w"
  by (simp_all add: validate_def validate_try_def validate_except_def datetime_now_def Let_def
      split: sum.splits prod.splits)

lemma payload_size_raises_iff:
  "payload_size d = Inl e \<longleftrightarrow>
     (truthy d = Inl e \<or> truthy d = Inr True \<and> py_str d = Inl e)"
  by (auto simp: payload_size_def split: sum.splits)

text \<open>
  Two buffers with the same payload, expectation and direction: when \<^verbatim>\<open>validate\<close> returns
  an outcome on one, it returns the same outcome, up to the timestamp, on the other.
\<close>

lemma validate_outcome_cong:
  assumes "data a = data b" and "expectations a = expectations b"
      and "source_layer a = source_layer b" and "target_layer a = target_layer b"
      and "validate a w = (Inr (v, a'), w1)"
  shows "\<exists>v2 w2. validate b w' = (Inr (v2, append_validation b v2), w2)
                 \<and> v2 = v\<lparr>timestamp := timestamp v2\<rparr>"
proof (cases "validate_input (expectations a) (data a)")
  case (Inl e)
  show ?thesis
  proof (cases "exn_str e")
    case bad: (Inl e')
    with Inl assms(5) show ?thesis
      by (simp add: validate_input_raises validate_except_raises)
  next
    case (Inr msg)
    with Inl assms show ?thesis
      by (auto simp: validate_input_raises [of a] validate_input_raises [of b]
          validate_except_text)
  qed
next
  case ok: (Inr ok)
  show ?thesis
  proof (cases "payload_size (data a)")
    case (Inl e)
    show ?thesis
    proof (cases "exn_str e")
      case bad: (Inl e')
      with ok Inl assms(5) show ?thesis
        by (simp add: validate_size_raises validate_except_raises)
    next
      case (Inr msg)
      with ok Inl assms show ?thesis
        by (auto simp: validate_size_raises [of a] validate_size_raises [of b]
            validate_except_text datetime_now_def)
    qed
  next
    case (Inr n)
    with ok assms show ?thesis
      by (auto simp: validate_normal [of a] validate_normal [of b])
  qed
qed

lemma qa_payload_str:
  "py_str qa_payload
     = Inr (''{'' @ [CHR 0x27] @ ''question'' @ [CHR 0x27] @ '': '' @ [CHR 0x27] @ ''Q''
            @ [CHR 0x27] @ '', '' @ [CHR 0x27] @ ''answer'' @ [CHR 0x27] @ '': ''
            @ [CHR 0x27] @ ''A'' @ [CHR 0x27] @ ''}'')"
  by (simp add: qa_payload_def repr_str_def escape_char_def is_printable_def dict_item_def
      Let_def)

lemma qa_payload_size: "payload_size qa_payload = Inr 32"
proof -
  have "truthy qa_payload = Inr True" by (simp add: qa_payload_def)
  then show ?thesis by (simp add: payload_size_def qa_payload_str)
qed

text \<open>
  Claim C2, as amended. When the predicate \<^verbatim>\<open>validate_input\<close> raises, or when computing the
  payload size raises (the truth test of the payload, or \<^verbatim>\<open>str\<close> of a true payload), and the
  text \<^verbatim>\<open>str(e)\<close> of the exception \<open>e\<close> can be computed, then \<open>e\<close> is caught: \<^verbatim>\<open>validate\<close>
  returns an outcome, which is \<open>FAILED\<close>, carries the text of \<open>e\<close> in its details and its
  message, and is appended to the history like any other.
\<close>

theorem validate_catches_errors:
  assumes "validate_input (expectations self) (data self) = Inl e
           \<or> (\<exists>ok. validate_input (expectations self) (data self) = Inr ok)
             \<and> (truthy (data self) = Inl e
                \<or> truthy (data self) = Inr True \<and> py_str (data self) = Inl e)"
      and "exn_str e = Inr text"
  shows "\<exists>v w'. validate self w
                  = (Inr (v, self\<lparr>validation_results := validation_results self @ [v]\<rparr>), w')
               \<and> status v = FAILED
               \<and> validation_details v = [(''error'', PStr text)]
               \<and> message v = ''Buffer validation error: '' @ text
               \<and> data_size v = 0"
proof -
  from assms(1) consider
      (pred) "validate_input (expectations self) (data self) = Inl e"
    | (size) ok where "validate_input (expectations self) (data self) = Inr ok"
        and "payload_size (data self) = Inl e"
    by (auto simp: payload_size_raises_iff)
  then show ?thesis
  proof cases
    case pred
    then show ?thesis
      by (simp add: validate_input_raises validate_except_text [OF assms(2)]
          append_validation_def)
  next
    case size
    then show ?thesis
      by (simp add: validate_size_raises validate_except_text [OF assms(2)]
          append_validation_def)
  qed
qed

theorem validate_catches_errors_witness:
  "validate_input (expectations (buffer_of raising_expectation qa_payload))
       (data (buffer_of raising_expectation qa_payload))
     = Inl (Exn ''TypeError'' (Inr ''schema mismatch''))
   \<and> map_sum id (status \<circ> fst) (fst (validate (buffer_of raising_expectation qa_payload) world0))
       = Inr FAILED
   \<and> map_sum id (validation_details \<circ> fst)
         (fst (validate (buffer_of raising_expectation qa_payload) world0))
       = Inr [(''error'', PStr ''schema mismatch'')]
   \<and> map_sum id (length \<circ> validation_results \<circ> snd)
         (fst (validate (buffer_of raising_expectation qa_payload) world0))
       = Inr 1
   \<and> validate_input (expectations (buffer_of permissive_expectation opaque_payload))
       (data (buffer_of permissive_expectation opaque_payload)) = Inr True
   \<and> py_str (data (buffer_of permissive_expectation opaque_payload))
       = Inl (Exn ''RuntimeError'' (Inr ''no text''))
   \<and> map_sum id (status \<circ> fst)
         (fst (validate (buffer_of permissive_expectation opaque_payload) world0))
       = Inr FAILED
   \<and> map_sum id (message \<circ> fst)
         (fst (validate (buffer_of permissive_expectation opaque_payload) world0))
       = Inr ''Buffer validation error: no text''"
proof -
  let ?E = "Exn ''TypeError'' (Inr ''schema mismatch'')"
  let ?R = "Exn ''RuntimeError'' (Inr ''no text'')"
  have h1: "validate_input (expectations (buffer_of raising_expectation qa_payload))
       (data (buffer_of raising_expectation qa_payload)) = Inl ?E"
    by (simp add: ex_defs)
  have h2: "validate_input (expectations (buffer_of permissive_expectation opaque_payload))
       (data (buffer_of permissive_expectation opaque_payload)) = Inr True"
    by (simp add: ex_defs)
  have h3: "truthy (data (buffer_of permissive_expectation opaque_payload)) = Inr True"
    by (simp add: ex_defs)
  have h4: "py_str (data (buffer_of permissive_expectation opaque_payload)) = Inl ?R"
    by (simp add: ex_defs)
  have r0: "validation_results (buffer_of raising_expectation qa_payload) = []"
    by (simp add: buffer_of_def)
  have a: "validate_input (expectations (buffer_of raising_expectation qa_payload))
             (data (buffer_of raising_expectation qa_payload)) = Inl ?E
           \<or> (\<exists>ok. validate_input (expectations (buffer_of raising_expectation qa_payload))
                     (data (buffer_of raising_expectation qa_payload)) = Inr ok)
             \<and> (truthy (data (buffer_of raising_expectation qa_payload)) = Inl ?E
                \<or> truthy (data (buffer_of raising_expectation qa_payload)) = Inr True
                  \<and> py_str (data (buffer_of raising_expectation qa_payload)) = Inl ?E)"
    using h1 by (rule disjI1)
  have b: "validate_input (expectations (buffer_of permissive_expectation opaque_payload))
             (data (buffer_of permissive_expectation opaque_payload)) = Inl ?R
           \<or> (\<exists>ok. validate_input (expectations (buffer_of permissive_expectation opaque_payload))
                     (data (buffer_of permissive_expectation opaque_payload)) = Inr ok)
             \<and> (truthy (data (buffer_of permissive_expectation opaque_payload)) = Inl ?R
                \<or> truthy (data (buffer_of permissive_expectation opaque_payload)) = Inr True
                  \<and> py_str (data (buffer_of permissive_expectation opaque_payload)) = Inl ?R)"
    using h2 h3 h4 by blast
  have ta: "exn_str ?E = Inr ''schema mismatch''" and tb: "exn_str ?R = Inr ''no text''"
    by simp_all
  from validate_catches_errors [OF a ta, of world0] obtain v w'
    where va: "validate (buffer_of raising_expectation qa_payload) world0
                 = (Inr (v, (buffer_of raising_expectation qa_payload)
                              \<lparr>validation_results :=
                                 validation_results (buffer_of raising_expectation qa_payload)
                                 @ [v]\<rparr>), w')"
      and pa: "status v = FAILED" "validation_details v = [(''error'', PStr ''schema mismatch'')]"
    by blast
  from validate_catches_errors [OF b tb, of world0] obtain u w''
    where vb: "validate (buffer_of permissive_expectation opaque_payload) world0
                 = (Inr (u, (buffer_of permissive_expectation opaque_payload)
                              \<lparr>validation_results :=
                                 validation_results (buffer_of permissive_expectation opaque_payload)
                                 @ [u]\<rparr>), w'')"
      and pb: "status u = FAILED" "message u = ''Buffer validation error: '' @ ''no text''"
    by blast
  show ?thesis
    unfolding va vb using h1 h2 h4 r0 pa pb by simp
qed

text \<open>
  Claim C2 as the specification words it, that \<^verbatim>\<open>validate\<close> never propagates an exception,
  fails: when the predicate raises an exception whose \<^verbatim>\<open>__str__\<close> raises, the handler's
  \<^verbatim>\<open>str(e)\<close> raises in turn and that exception leaves \<^verbatim>\<open>validate\<close>.
\<close>

theorem validate_catches_errors_counterexample:
  "validate_input (expectations (buffer_of unprintable_expectation qa_payload))
       (data (buffer_of unprintable_expectation qa_payload))
     = Inl (Exn ''SchemaError'' (Inl (Exn ''RuntimeError'' (Inr ''no text''))))
   \<and> validate (buffer_of unprintable_expectation qa_payload) world0
       = (Inl (Exn ''RuntimeError'' (Inr ''no text'')), world0)"
proof -
  have h: "validate_input (expectations (buffer_of unprintable_expectation qa_payload))
       (data (buffer_of unprintable_expectation qa_payload))
     = Inl (Exn ''SchemaError'' (Inl (Exn ''RuntimeError'' (Inr ''no text''))))"
    by (simp add: ex_defs)
  have "validate (buffer_of unprintable_expectation qa_payload) world0
       = (Inl (Exn ''RuntimeError'' (Inr ''no text'')), world0)"
    by (simp add: validate_input_raises [OF h] validate_except_raises)
  with h show ?thesis by simp
qed

text \<open>
  Claim C5, as amended. Every call of \<^verbatim>\<open>validate\<close> that returns appends exactly one outcome,
  the one it returns, and leaves payload and expectation alone; a second call on the buffer
  the first one left returns too, with an outcome that agrees with the first in every field
  but the timestamp, and the history has grown by two.
\<close>

theorem validate_appends_exactly_one:
  assumes "validate self w = (Inr (v1, b1), w1)"
  shows "validation_results b1 = validation_results self @ [v1]
       \<and> length (validation_results b1) = length (validation_results self) + 1
       \<and> data b1 = data self
       \<and> expectations b1 = expectations self
       \<and> (\<exists>v2 b2 w2. validate b1 w1 = (Inr (v2, b2), w2)
             \<and> status v2 = status v1
             \<and> message v2 = message v1
             \<and> v2 = v1\<lparr>timestamp := timestamp v2\<rparr>
             \<and> validation_results b2 = validation_results self @ [v1, v2]
             \<and> length (validation_results b2) = length (validation_results self) + 2)"
proof -
  have b1: "b1 = append_validation self v1"
    by (rule validate_returns(1) [OF assms])
  then have keep: "data self = data b1" "expectations self = expectations b1"
    "source_layer self = source_layer b1" "target_layer self = target_layer b1"
    by (simp_all add: append_validation_def)
  from validate_outcome_cong [OF keep assms, of w1] obtain v2 w2
    where second: "validate b1 w1 = (Inr (v2, append_validation b1 v2), w2)"
      and agree: "v2 = v1\<lparr>timestamp := timestamp v2\<rparr>"
    by blast
  have sm: "status v2 = status v1" "message v2 = message v1"
    using arg_cong [OF agree, of status] arg_cong [OF agree, of message] by simp_all
  have one: "validation_results b1 = validation_results self @ [v1]"
    "data b1 = data self" "expectations b1 = expectations self"
    using b1 by (simp_all add: append_validation_def)
  have two: "validation_results (append_validation b1 v2) = validation_results self @ [v1, v2]"
    using one(1) by (simp add: append_validation_def)
  then have len: "length (validation_results (append_validation b1 v2))
                    = length (validation_results self) + 2"
    by simp
  have "\<exists>v2 b2 w2. validate b1 w1 = (Inr (v2, b2), w2)
             \<and> status v2 = status v1
             \<and> message v2 = message v1
             \<and> v2 = v1\<lparr>timestamp := timestamp v2\<rparr>
             \<and> validation_results b2 = validation_results self @ [v1, v2]
             \<and> length (validation_results b2) = length (validation_results self) + 2"
    using second sm agree two len by blast
  with one show ?thesis by simp
qed

theorem validate_appends_exactly_one_witness:
  "map_sum id (validation_results \<circ> snd)
       (fst (validate (buffer_of rejecting_expectation qa_payload) world0))
     = map_sum id (\<lambda>r. [fst r])
         (fst (validate (buffer_of rejecting_expectation qa_payload) world0))
   \<and> map_sum id (status \<circ> fst)
         (fst (validate (buffer_of rejecting_expectation qa_payload) world0))
       = Inr FAILED
   \<and> map_sum id (status \<circ> fst)
         (fst (validate
                 (append_validation (buffer_of rejecting_expectation qa_payload)
                    \<lparr> status = FAILED, message = ''Buffer validation failed'',
                      timestamp = clock world0 (ticks world0),
                      layer_from = TOP, layer_to = MIDDLE, data_size = 32,
                      validation_details = [(''input_valid'', PBool False)] \<rparr>)
                 (world0\<lparr>ticks := Suc (ticks world0)\<rparr>)))
       = Inr FAILED
   \<and> map_sum id (length \<circ> validation_results \<circ> snd)
         (fst (validate
                 (append_validation (buffer_of rejecting_expectation qa_payload)
                    \<lparr> status = FAILED, message = ''Buffer validation failed'',
                      timestamp = clock world0 (ticks world0),
                      layer_from = TOP, layer_to = MIDDLE, data_size = 32,
                      validation_details = [(''input_valid'', PBool False)] \<rparr>)
                 (world0\<lparr>ticks := Suc (ticks world0)\<rparr>)))
       = Inr 2"
proof -
  let ?b = "buffer_of rejecting_expectation qa_payload"
  let ?v = "\<lparr> status = FAILED, message = ''Buffer validation failed'',
              timestamp = clock world0 (ticks world0),
              layer_from = TOP, layer_to = MIDDLE, data_size = 32,
              validation_details = [(''input_valid'', PBool False)] \<rparr>"
  have p: "validate_input (expectations ?b) (data ?b) = Inr False"
    by (simp add: ex_defs)
  have n: "payload_size (data ?b) = Inr 32"
    by (simp add: buffer_of_def qa_payload_size)
  have first: "validate ?b world0
                 = (Inr (?v, append_validation ?b ?v), world0\<lparr>ticks := Suc (ticks world0)\<rparr>)"
    by (simp add: validate_normal [OF p n]) (simp add: buffer_of_def)
  have r0: "validation_results ?b = []" by (simp add: buffer_of_def)
  from validate_appends_exactly_one [OF first] obtain v2 b2 w2
    where second: "validate (append_validation ?b ?v) (world0\<lparr>ticks := Suc (ticks world0)\<rparr>)
                     = (Inr (v2, b2), w2)"
      and s: "status v2 = status ?v"
      and l: "length (validation_results b2) = length (validation_results ?b) + 2"
    by blast
  show ?thesis
    unfolding first second using s l r0 by (simp add: append_validation_def)
qed

text \<open>
  Claim C5 as the specification words it, that every call appends exactly one outcome, fails
  at the call that raises: there is no outcome, and the history stays as it was.
\<close>

theorem validate_appends_exactly_one_counterexample:
  "fst (validate (buffer_of unprintable_expectation qa_payload) world0)
     = Inl (Exn ''RuntimeError'' (Inr ''no text''))
   \<and> validation_results (buffer_of unprintable_expectation qa_payload) = []"
proof -
  have h: "validate_input (expectations (buffer_of unprintable_expectation qa_payload))
       (data (buffer_of unprintable_expectation qa_payload))
     = Inl (Exn ''SchemaError'' (Inl (Exn ''RuntimeError'' (Inr ''no text''))))"
    by (simp add: ex_defs)
  have "fst (validate (buffer_of unprintable_expectation qa_payload) world0)
       = Inl (Exn ''RuntimeError'' (Inr ''no text''))"
    by (simp add: validate_input_raises [OF h] validate_except_raises)
  then show ?thesis by (simp add: buffer_of_def)
qed

text \<open>
  Claim C7, as amended. When \<^verbatim>\<open>validate_input\<close> returns true and the payload size can be
  computed, \<^verbatim>\<open>validate\<close> returns an outcome that is \<open>PASSED\<close> with the message
  \<^verbatim>\<open>Buffer validation passed\<close>; when it returns false, the outcome is \<open>FAILED\<close> with the
  message \<^verbatim>\<open>Buffer validation failed\<close>.
\<close>

theorem validate_result_contents:
  assumes "validate_input (expectations self) (data self) = Inr ok"
      and "payload_size (data self) = Inr n"
  shows "\<exists>v b' w'. validate self w = (Inr (v, b'), w')
           \<and> (ok \<longrightarrow> status v = PASSED \<and> message v = ''Buffer validation passed'')
           \<and> (\<not> ok \<longrightarrow> status v = FAILED \<and> message v = ''Buffer validation failed'')"
  using assms by (simp add: validate_normal)

theorem validate_result_contents_witness:
  "validate_input (expectations (buffer_of permissive_expectation qa_payload))
     (data (buffer_of permissive_expectation qa_payload)) = Inr True
   \<and> payload_size (data (buffer_of permissive_expectation qa_payload)) = Inr 32
   \<and> map_sum id (status \<circ> fst)
         (fst (validate (buffer_of permissive_expectation qa_payload) world0))
       = Inr PASSED
   \<and> map_sum id (message \<circ> fst)
         (fst (validate (buffer_of permissive_expectation qa_payload) world0))
       = Inr ''Buffer validation passed''
   \<and> validate_input (expectations (buffer_of rejecting_expectation qa_payload))
       (data (buffer_of rejecting_expectation qa_payload)) = Inr False
   \<and> map_sum id (status \<circ> fst)
         (fst (validate (buffer_of rejecting_expectation qa_payload) world0))
       = Inr FAILED
   \<and> map_sum id (message \<circ> fst)
         (fst (validate (buffer_of rejecting_expectation qa_payload) world0))
       = Inr ''Buffer validation failed''"
proof -
  have p: "validate_input (expectations (buffer_of permissive_expectation qa_payload))
     (data (buffer_of permissive_expectation qa_payload)) = Inr True"
    by (simp add: ex_defs)
  have r: "validate_input (expectations (buffer_of rejecting_expectation qa_payload))
       (data (buffer_of rejecting_expectation qa_payload)) = Inr False"
    by (simp add: ex_defs)
  have n: "payload_size (data (buffer_of permissive_expectation qa_payload)) = Inr 32"
    "payload_size (data (buffer_of rejecting_expectation qa_payload)) = Inr 32"
    by (simp_all add: buffer_of_def qa_payload_size)
  from validate_result_contents [OF p n(1), of world0] obtain v b' w'
    where a: "validate (buffer_of permissive_expectation qa_payload) world0 = (Inr (v, b'), w')"
      and a': "status v = PASSED" "message v = ''Buffer validation passed''"
    by blast
  from validate_result_contents [OF r n(2), of world0] obtain u c' w''
    where b: "validate (buffer_of rejecting_expectation qa_payload) world0 = (Inr (u, c'), w'')"
      and b': "status u = FAILED" "message u = ''Buffer validation failed''"
    by blast
  show ?thesis unfolding a b using p r n a' b' by simp
qed

text \<open>
  Claim C7 as the specification words it fails on two counts: the message of a passing
  validation is \<^verbatim>\<open>Buffer validation passed\<close>, not \<^verbatim>\<open>validation passed\<close>; and a payload
  whose \<^verbatim>\<open>str\<close> raises gives \<open>FAILED\<close> although \<^verbatim>\<open>validate_input\<close> returned true.
\<close>

theorem validate_result_contents_counterexample:
  "validate_input (expectations (buffer_of permissive_expectation qa_payload))
     (data (buffer_of permissive_expectation qa_payload)) = Inr True
   \<and> map_sum id (message \<circ> fst)
         (fst (validate (buffer_of permissive_expectation qa_payload) world0))
       = Inr ''Buffer validation passed''
   \<and> ''Buffer validation passed'' \<noteq> ''validation passed''
   \<and> validate_input (expectations (buffer_of permissive_expectation opaque_payload))
       (data (buffer_of permissive_expectation opaque_payload)) = Inr True
   \<and> map_sum id (status \<circ> fst)
         (fst (validate (buffer_of permissive_expectation opaque_payload) world0))
       = Inr FAILED"
proof -
  have p: "validate_input (expectations (buffer_of permissive_expectation qa_payload))
     (data (buffer_of permissive_expectation qa_payload)) = Inr True"
    by (simp add: ex_defs)
  have n: "payload_size (data (buffer_of permissive_expectation qa_payload)) = Inr 32"
    by (simp add: buffer_of_def qa_payload_size)
  have q: "validate_input (expectations (buffer_of permissive_expectation opaque_payload))
       (data (buffer_of permissive_expectation opaque_payload)) = Inr True"
    by (simp add: ex_defs)
  have m: "payload_size (data (buffer_of permissive_expectation opaque_payload))
             = Inl (Exn ''RuntimeError'' (Inr ''no text''))"
    by (simp add: ex_defs payload_size_def)
  have t: "exn_str (Exn ''RuntimeError'' (Inr ''no text'')) = Inr ''no text''" by simp
  have "map_sum id (message \<circ> fst)
         (fst (validate (buffer_of permissive_expectation qa_payload) world0))
          = Inr ''Buffer validation passed''"
    by (simp add: validate_normal [OF p n])
  moreover have "map_sum id (status \<circ> fst)
         (fst (validate (buffer_of permissive_expectation opaque_payload) world0))
          = Inr FAILED"
    by (simp add: validate_size_raises [OF q m] validate_except_text [OF t])
  ultimately show ?thesis using p q by simp
qed



text \<open>
  Claim C10. Every outcome \<^verbatim>\<open>validate\<close> returns is \<open>PASSED\<close> or \<open>FAILED\<close>, on the normal
  branch and on the exception branch alike, and so is the entry it has appended;
  \<open>WARNING\<close> never comes out of it.
\<close>

theorem validate_status_passed_or_failed:
  assumes "validate self w = (Inr (v, b'), w')"
  shows "(status v = PASSED \<or> status v = FAILED)
       \<and> status v \<noteq> WARNING
       \<and> status (last (validation_results b')) \<noteq> WARNING"
proof -
  have "status v = PASSED \<or> status v = FAILED"
    by (rule validate_returns(4) [OF assms])
  moreover have "last (validation_results b') = v"
    using validate_returns(1) [OF assms] by (simp add: append_validation_def)
  ultimately show ?thesis by auto
qed

theorem validate_status_passed_or_failed_witness:
  "map_sum id (status \<circ> fst)
       (fst (validate (buffer_of permissive_expectation qa_payload) world0)) = Inr PASSED
   \<and> map_sum id (status \<circ> fst)
         (fst (validate (buffer_of raising_expectation qa_payload) world0)) = Inr FAILED
   \<and> PASSED \<noteq> WARNING \<and> FAILED \<noteq> WARNING"
proof -
  let ?p = "buffer_of permissive_expectation qa_payload"
  let ?r = "buffer_of raising_expectation qa_payload"
  have p: "validate_input (expectations ?p) (data ?p) = Inr True"
    by (simp add: ex_defs)
  have n: "payload_size (data ?p) = Inr 32"
    by (simp add: buffer_of_def qa_payload_size)
  have r: "validate_input (expectations ?r) (data ?r)
             = Inl (Exn ''TypeError'' (Inr ''schema mismatch''))"
    by (simp add: ex_defs)
  have t: "exn_str (Exn ''TypeError'' (Inr ''schema mismatch'')) = Inr ''schema mismatch''"
    by simp
  have vp: "validate ?p world0
              = (Inr (fst (projr (fst (validate ?p world0))),
                      snd (projr (fst (validate ?p world0)))),
                 snd (validate ?p world0))"
    by (simp add: validate_normal [OF p n])
  have vr: "validate ?r world0
              = (Inr (fst (projr (fst (validate ?r world0))),
                      snd (projr (fst (validate ?r world0)))),
                 snd (validate ?r world0))"
    by (simp add: validate_input_raises [OF r] validate_except_text [OF t])
  have sp: "status (fst (projr (fst (validate ?p world0)))) = PASSED"
    by (simp add: validate_normal [OF p n])
  have sr: "status (fst (projr (fst (validate ?r world0)))) = FAILED"
    by (simp add: validate_input_raises [OF r] validate_except_text [OF t])
  from validate_status_passed_or_failed [OF vp] validate_status_passed_or_failed [OF vr]
  have "status (fst (projr (fst (validate ?p world0)))) \<noteq> WARNING
        \<and> status (fst (projr (fst (validate ?r world0)))) \<noteq> WARNING"
    by simp
  moreover have "map_sum id (status \<circ> fst) (fst (validate ?p world0)) = Inr PASSED"
    by (subst vp) (simp add: sp)
  moreover have "map_sum id (status \<circ> fst) (fst (validate ?r world0)) = Inr FAILED"
    by (subst vr) (simp add: sr)
  ultimately show ?thesis by simp
qed

section \<open>Properties of the stages\<close>

lemmas stage_defs = auditor_def critic_def reviser_def

text \<open>
  Claim C3. The buffer \<^verbatim>\<open>create_output_buffer(target, data)\<close> builds has the creating
  stage's kind as its source and \<open>target\<close> as its target; its expectation is a fresh
  instance of \<^verbatim>\<open>LayerExpectation\<close> for the target whose input schema is the stage's own
  output schema; its history is empty, it carries \<open>data\<close>, and it is stored as the stage's
  outbound buffer, the inbound one staying as it was.
\<close>

theorem create_output_buffer_direction:
  "source_layer (fst (create_output_buffer self target d w)) = layer_type self
   \<and> target_layer (fst (create_output_buffer self target d w)) = target
   \<and> input_schema (expectations (fst (create_output_buffer self target d w)))
       = output_schema (stage_expectations self)
   \<and> expectations (fst (create_output_buffer self target d w))
       = LayerExpectation target (output_schema (stage_expectations self)) [] [] [] []
   \<and> validation_results (fst (create_output_buffer self target d w)) = []
   \<and> data (fst (create_output_buffer self target d w)) = d
   \<and> output_buffer (fst (snd (create_output_buffer self target d w)))
       = Some (fst (create_output_buffer self target d w))
   \<and> input_buffer (fst (snd (create_output_buffer self target d w))) = input_buffer self
   \<and> layer_type (fst (snd (create_output_buffer self target d w))) = layer_type self"
  by (simp add: create_output_buffer_def datetime_now_def LayerExpectation_def Let_def)

text \<open>
  Claim C8. The \<^verbatim>\<open>process\<close> of a top stage returns what \<^verbatim>\<open>orchestrate\<close> returns (a
  value or an exception) and has no other effect than that of \<^verbatim>\<open>orchestrate\<close>: the stage
  object is unchanged, the clock is not read and nothing is logged. No inbound buffer is
  looked at: with any buffer attached, also one whose validation would fail, the outcome is
  the same and the buffer keeps its history.
\<close>

theorem top_process_delegates:
  "FactCheckAuditor_process self x w
     = (fst (orchestrate self x (user w)), self, w\<lparr>user := snd (orchestrate self x (user w))\<rparr>)
   \<and> fst (FactCheckAuditor_process (self\<lparr>input_buffer := ib\<rparr>) x w)
       = fst (orchestrate self x (user w))
   \<and> input_buffer (fst (snd (FactCheckAuditor_process (self\<lparr>input_buffer := ib\<rparr>) x w))) = ib
   \<and> ticks (snd (snd (FactCheckAuditor_process self x w))) = ticks w
   \<and> log_records (snd (snd (FactCheckAuditor_process self x w))) = log_records w"
  by (simp add: FactCheckAuditor_process_def split: prod.splits)

lemma apply_quality_gates_log:
  "apply_quality_gates chk gates result w
     = w\<lparr>log_records := log_records w
            @ map (\<lambda>gate. (LOG_WARNING, quality_gate_warning gate))
                (filter (\<lambda>gate. \<not> chk gate result) gates)\<rparr>"
  by (induction gates arbitrary: w) (simp_all add: logger_warning_def)

lemma run_output_validators_log:
  "run_output_validators chk validators result w
     = w\<lparr>log_records := log_records w
            @ map (\<lambda>validator. (LOG_WARNING, output_validator_warning validator))
                (filter (\<lambda>validator. \<not> chk validator result) validators)\<rparr>"
  by (induction validators arbitrary: w) (simp_all add: logger_warning_def)

lemma middle_blocked:
  assumes "input_buffer self = Some b" and "validate b w = (Inr (v, b1), w1)"
      and "status v = FAILED"
  shows "MiddleLayer_process self x w
           = (Inl (Exn ''ValueError'' (Inr (''Input validation failed: '' @ message v))),
              self\<lparr>input_buffer := Some b1\<rparr>, w1)"
  using assms by (simp add: MiddleLayer_process_def)

lemma middle_passed:
  assumes "input_buffer self = Some b" and "validate b w = (Inr (v, b1), w1)"
      and "status v \<noteq> FAILED"
      and "execute_core_logic self x (user w1) = (Inr result, u2)"
  shows "MiddleLayer_process self x w
           = (Inr result, self\<lparr>input_buffer := Some b1\<rparr>,
              apply_quality_gates (check_quality_gate self) (quality_gates self) result
                (w1\<lparr>user := u2\<rparr>))"
  using assms by (simp add: MiddleLayer_process_def)

lemma bottom_blocked:
  assumes "input_buffer self = Some b" and "validate b w = (Inr (v, b1), w1)"
      and "status v = FAILED"
  shows "BottomLayer_process self x w
           = (Inl (Exn ''ValueError'' (Inr (''Input validation failed: '' @ message v))),
              self\<lparr>input_buffer := Some b1\<rparr>, w1)"
  using assms by (simp add: BottomLayer_process_def)

lemma bottom_passed:
  assumes "input_buffer self = Some b" and "validate b w = (Inr (v, b1), w1)"
      and "status v \<noteq> FAILED"
      and "finalize_output self
             (apply_finalization_rules (apply_finalization_rule self) (finalization_rules self) x)
             (user w1) = (Inr result, u2)"
  shows "BottomLayer_process self x w
           = (Inr result, self\<lparr>input_buffer := Some b1\<rparr>,
              run_output_validators (validate_output_with self) (output_validators self) result
                (w1\<lparr>user := u2\<rparr>))"
  using assms by (simp add: BottomLayer_process_def)

lemma validate_world_eq:
  assumes "validate b w = (r, w1)"
  shows "user w1 = user w" and "log_records w1 = log_records w"
  using validate_world [of b w] assms by simp_all

text \<open>
  Claim C1. A middle stage with an inbound buffer \<open>b\<close> first validates it. If the outcome
  \<open>v\<close> that \<^verbatim>\<open>validate\<close> returns is \<open>FAILED\<close>, \<^verbatim>\<open>process\<close> raises a \<^verbatim>\<open>ValueError\<close> whose text ends in the message
  of \<open>v\<close>, and the core logic has not run: the application state is the one before the
  call and nothing is logged. Otherwise \<^verbatim>\<open>process\<close> returns the result of
  \<^verbatim>\<open>execute_core_logic\<close>, and the quality gates that return false add one warning each to
  the log and change nothing else. The bottom stage does the same with
  \<^verbatim>\<open>finalize_output\<close>, run on the input the finalization rules have rewritten, and its
  output validators.
\<close>

theorem process_blocking_then_advisory:
  fixes m :: "'u middle_layer" and f :: "'u bottom_layer"
  shows
  "(input_buffer m = Some b \<and> validate b w = (Inr (v, b1), w1) \<and> status v = FAILED \<longrightarrow>
      MiddleLayer_process m x w
        = (Inl (Exn ''ValueError'' (Inr (''Input validation failed: '' @ message v))),
           m\<lparr>input_buffer := Some b1\<rparr>, w1)
      \<and> user w1 = user w \<and> log_records w1 = log_records w)
   \<and> (input_buffer m = Some b \<and> validate b w = (Inr (v, b1), w1) \<and> status v \<noteq> FAILED
       \<and> execute_core_logic m x (user w) = (Inr result, u2) \<longrightarrow>
      MiddleLayer_process m x w
        = (Inr result, m\<lparr>input_buffer := Some b1\<rparr>,
           w1\<lparr>user := u2,
              log_records := log_records w
                @ map (\<lambda>gate. (LOG_WARNING, quality_gate_warning gate))
                    (filter (\<lambda>gate. \<not> check_quality_gate m gate result) (quality_gates m))\<rparr>))
   \<and> (input_buffer f = Some b \<and> validate b w = (Inr (v, b1), w1) \<and> status v = FAILED \<longrightarrow>
      BottomLayer_process f x w
        = (Inl (Exn ''ValueError'' (Inr (''Input validation failed: '' @ message v))),
           f\<lparr>input_buffer := Some b1\<rparr>, w1)
      \<and> user w1 = user w \<and> log_records w1 = log_records w)
   \<and> (input_buffer f = Some b \<and> validate b w = (Inr (v, b1), w1) \<and> status v \<noteq> FAILED
       \<and> finalize_output f
           (apply_finalization_rules (apply_finalization_rule f) (finalization_rules f) x)
           (user w) = (Inr result, u2) \<longrightarrow>
      BottomLayer_process f x w
        = (Inr result, f\<lparr>input_buffer := Some b1\<rparr>,
           w1\<lparr>user := u2,
              log_records := log_records w
                @ map (\<lambda>validator. (LOG_WARNING, output_validator_warning validator))
                    (filter (\<lambda>validator. \<not> validate_output_with f validator result)
                       (output_validators f))\<rparr>))"
proof (intro conjI impI; elim conjE)
  assume "input_buffer m = Some b" "validate b w = (Inr (v, b1), w1)" "status v = FAILED"
  then show "MiddleLayer_process m x w
        = (Inl (Exn ''ValueError'' (Inr (''Input validation failed: '' @ message v))),
           m\<lparr>input_buffer := Some b1\<rparr>, w1)"
    by (rule middle_blocked)
next
  assume "validate b w = (Inr (v, b1), w1)"
  then show "user w1 = user w" by (rule validate_world_eq)
next
  assume "validate b w = (Inr (v, b1), w1)"
  then show "log_records w1 = log_records w" by (rule validate_world_eq)
next
  assume a: "input_buffer m = Some b" "validate b w = (Inr (v, b1), w1)" "status v \<noteq> FAILED"
    and h: "execute_core_logic m x (user w) = (Inr result, u2)"
  have u: "user w1 = user w" "log_records w1 = log_records w"
    using a(2) by (rule validate_world_eq)+
  from h u have "execute_core_logic m x (user w1) = (Inr result, u2)" by simp
  from middle_passed [OF a this] u
  show "MiddleLayer_process m x w
        = (Inr result, m\<lparr>input_buffer := Some b1\<rparr>,
           w1\<lparr>user := u2,
              log_records := log_records w
                @ map (\<lambda>gate. (LOG_WARNING, quality_gate_warning gate))
                    (filter (\<lambda>gate. \<not> check_quality_gate m gate result) (quality_gates m))\<rparr>)"
    by (simp add: apply_quality_gates_log)
next
  assume "input_buffer f = Some b" "validate b w = (Inr (v, b1), w1)" "status v = FAILED"
  then show "BottomLayer_process f x w
        = (Inl (Exn ''ValueError'' (Inr (''Input validation failed: '' @ message v))),
           f\<lparr>input_buffer := Some b1\<rparr>, w1)"
    by (rule bottom_blocked)
next
  assume "validate b w = (Inr (v, b1), w1)"
  then show "user w1 = user w" by (rule validate_world_eq)
next
  assume "validate b w = (Inr (v, b1), w1)"
  then show "log_records w1 = log_records w" by (rule validate_world_eq)
next
  assume a: "input_buffer f = Some b" "validate b w = (Inr (v, b1), w1)" "status v \<noteq> FAILED"
    and h: "finalize_output f
           (apply_finalization_rules (apply_finalization_rule f) (finalization_rules f) x)
           (user w) = (Inr result, u2)"
  have u: "user w1 = user w" "log_records w1 = log_records w"
    using a(2) by (rule validate_world_eq)+
  from h u have "finalize_output f
           (apply_finalization_rules (apply_finalization_rule f) (finalization_rules f) x)
           (user w1) = (Inr result, u2)" by simp
  from bottom_passed [OF a this] u
  show "BottomLayer_process f x w
        = (Inr result, f\<lparr>input_buffer := Some b1\<rparr>,
           w1\<lparr>user := u2,
              log_records := log_records w
                @ map (\<lambda>validator. (LOG_WARNING, output_validator_warning validator))
                    (filter (\<lambda>validator. \<not> validate_output_with f validator result)
                       (output_validators f))\<rparr>)"
    by (simp add: run_output_validators_log)
qed

lemma rejecting_buffer_outcome:
  "validate (buffer_of rejecting_expectation qa_payload) w
     = (Inr (\<lparr> status = FAILED, message = ''Buffer validation failed'',
               timestamp = clock w (ticks w), layer_from = TOP, layer_to = MIDDLE,
               data_size = 32, validation_details = [(''input_valid'', PBool False)] \<rparr>,
             append_validation (buffer_of rejecting_expectation qa_payload)
               \<lparr> status = FAILED, message = ''Buffer validation failed'',
                 timestamp = clock w (ticks w), layer_from = TOP, layer_to = MIDDLE,
                 data_size = 32, validation_details = [(''input_valid'', PBool False)] \<rparr>),
        w\<lparr>ticks := Suc (ticks w)\<rparr>)"
proof -
  have p: "validate_input (expectations (buffer_of rejecting_expectation qa_payload))
             (data (buffer_of rejecting_expectation qa_payload)) = Inr False"
    by (simp add: ex_defs)
  have n: "payload_size (data (buffer_of rejecting_expectation qa_payload)) = Inr 32"
    by (simp add: buffer_of_def qa_payload_size)
  show ?thesis
    by (simp add: validate_normal [OF p n]) (simp add: buffer_of_def)
qed

lemma permissive_buffer_outcome:
  "validate (buffer_of permissive_expectation qa_payload) w
     = (Inr (\<lparr> status = PASSED, message = ''Buffer validation passed'',
               timestamp = clock w (ticks w), layer_from = TOP, layer_to = MIDDLE,
               data_size = 32, validation_details = [(''input_valid'', PBool True)] \<rparr>,
             append_validation (buffer_of permissive_expectation qa_payload)
               \<lparr> status = PASSED, message = ''Buffer validation passed'',
                 timestamp = clock w (ticks w), layer_from = TOP, layer_to = MIDDLE,
                 data_size = 32, validation_details = [(''input_valid'', PBool True)] \<rparr>),
        w\<lparr>ticks := Suc (ticks w)\<rparr>)"
proof -
  have p: "validate_input (expectations (buffer_of permissive_expectation qa_payload))
             (data (buffer_of permissive_expectation qa_payload)) = Inr True"
    by (simp add: ex_defs)
  have n: "payload_size (data (buffer_of permissive_expectation qa_payload)) = Inr 32"
    by (simp add: buffer_of_def qa_payload_size)
  show ?thesis
    by (simp add: validate_normal [OF p n]) (simp add: buffer_of_def)
qed

theorem process_blocking_then_advisory_witness:
  "fst (MiddleLayer_process
          (critic\<lparr>input_buffer := Some (buffer_of rejecting_expectation qa_payload)\<rparr>)
          qa_payload world0)
     = Inl (Exn ''ValueError'' (Inr ''Input validation failed: Buffer validation failed''))
   \<and> user (snd (snd (MiddleLayer_process
          (critic\<lparr>input_buffer := Some (buffer_of rejecting_expectation qa_payload)\<rparr>)
          qa_payload world0))) = []
   \<and> fst (MiddleLayer_process
          (critic\<lparr>input_buffer := Some (buffer_of permissive_expectation qa_payload)\<rparr>)
          qa_payload world0)
     = Inr (PList [PStr ''processed'', qa_payload])
   \<and> log_records (snd (snd (MiddleLayer_process
          (critic\<lparr>input_buffer := Some (buffer_of permissive_expectation qa_payload)\<rparr>)
          qa_payload world0)))
     = [(LOG_WARNING, quality_gate_warning ''adequate_evidence_gathered'')]
   \<and> fst (BottomLayer_process
          (reviser\<lparr>input_buffer := Some (buffer_of rejecting_expectation qa_payload)\<rparr>)
          qa_payload world0)
     = Inl (Exn ''ValueError'' (Inr ''Input validation failed: Buffer validation failed''))
   \<and> user (snd (snd (BottomLayer_process
          (reviser\<lparr>input_buffer := Some (buffer_of rejecting_expectation qa_payload)\<rparr>)
          qa_payload world0))) = []
   \<and> fst (BottomLayer_process
          (reviser\<lparr>input_buffer := Some (buffer_of permissive_expectation qa_payload)\<rparr>)
          qa_payload world0)
     = Inr (PList [PStr ''finalized'', PList [PStr ''trim'', qa_payload]])
   \<and> log_records (snd (snd (BottomLayer_process
          (reviser\<lparr>input_buffer := Some (buffer_of permissive_expectation qa_payload)\<rparr>)
          qa_payload world0)))
     = [(LOG_WARNING, output_validator_warning ''strict'')]"
proof -
  let ?rej = "buffer_of rejecting_expectation qa_payload"
  let ?ok = "buffer_of permissive_expectation qa_payload"
  let ?vr = "\<lparr> status = FAILED, message = ''Buffer validation failed'',
               timestamp = clock world0 (ticks world0), layer_from = TOP, layer_to = MIDDLE,
               data_size = 32, validation_details = [(''input_valid'', PBool False)] \<rparr>"
  let ?vo = "\<lparr> status = PASSED, message = ''Buffer validation passed'',
               timestamp = clock world0 (ticks world0), layer_from = TOP, layer_to = MIDDLE,
               data_size = 32, validation_details = [(''input_valid'', PBool True)] \<rparr>"
  let ?w1 = "world0\<lparr>ticks := Suc (ticks world0)\<rparr>"
  let ?mr = "critic\<lparr>input_buffer := Some ?rej\<rparr>"
  let ?mo = "critic\<lparr>input_buffer := Some ?ok\<rparr>"
  let ?br = "reviser\<lparr>input_buffer := Some ?rej\<rparr>"
  let ?bo = "reviser\<lparr>input_buffer := Some ?ok\<rparr>"
  have w0: "user world0 = []" "log_records world0 = []"
    by (simp_all add: world0_def)
  have vr: "validate ?rej world0 = (Inr (?vr, append_validation ?rej ?vr), ?w1)"
    by (rule rejecting_buffer_outcome)
  have vo: "validate ?ok world0 = (Inr (?vo, append_validation ?ok ?vo), ?w1)"
    by (rule permissive_buffer_outcome)
  have sr: "status ?vr = FAILED" and so: "status ?vo \<noteq> FAILED"
    by simp_all
  have core: "execute_core_logic ?mo qa_payload (user world0)
                = (Inr (PList [PStr ''processed'', qa_payload]), [''execute_core_logic''])"
    by (simp add: critic_def w0)
  have fin: "finalize_output ?bo
               (apply_finalization_rules (apply_finalization_rule ?bo) (finalization_rules ?bo)
                  qa_payload)
               (user world0)
                = (Inr (PList [PStr ''finalized'', PList [PStr ''trim'', qa_payload]]),
                   [''finalize_output''])"
    by (simp add: reviser_def w0)
  have gates: "filter (\<lambda>gate. \<not> check_quality_gate ?mo gate (PList [PStr ''processed'', qa_payload]))
                 (quality_gates ?mo) = [''adequate_evidence_gathered'']"
    by (simp add: critic_def)
  have vals: "filter (\<lambda>validator. \<not> validate_output_with ?bo validator
                        (PList [PStr ''finalized'', PList [PStr ''trim'', qa_payload]]))
                 (output_validators ?bo) = [''strict'']"
    by (simp add: reviser_def)
  have m1: "MiddleLayer_process ?mr qa_payload world0
              = (Inl (Exn ''ValueError'' (Inr (''Input validation failed: '' @ message ?vr))),
                 ?mr\<lparr>input_buffer := Some (append_validation ?rej ?vr)\<rparr>, ?w1)
            \<and> user ?w1 = user world0"
    using process_blocking_then_advisory
            [where m = ?mr and b = ?rej and w = world0 and x = qa_payload
               and v = ?vr and ?b1.0 = "append_validation ?rej ?vr" and ?w1.0 = ?w1]
          vr sr
    by simp
  have b1: "BottomLayer_process ?br qa_payload world0
              = (Inl (Exn ''ValueError'' (Inr (''Input validation failed: '' @ message ?vr))),
                 ?br\<lparr>input_buffer := Some (append_validation ?rej ?vr)\<rparr>, ?w1)
            \<and> user ?w1 = user world0"
    using process_blocking_then_advisory
            [where f = ?br and b = ?rej and w = world0 and x = qa_payload
               and v = ?vr and ?b1.0 = "append_validation ?rej ?vr" and ?w1.0 = ?w1]
          vr sr
    by simp
  have m2: "MiddleLayer_process ?mo qa_payload world0
              = (Inr (PList [PStr ''processed'', qa_payload]),
                 ?mo\<lparr>input_buffer := Some (append_validation ?ok ?vo)\<rparr>,
                 ?w1\<lparr>user := [''execute_core_logic''],
                      log_records := log_records world0
                        @ map (\<lambda>gate. (LOG_WARNING, quality_gate_warning gate))
                            (filter (\<lambda>gate. \<not> check_quality_gate ?mo gate
                                       (PList [PStr ''processed'', qa_payload]))
                               (quality_gates ?mo))\<rparr>)"
    using process_blocking_then_advisory
            [where m = ?mo and b = ?ok and w = world0 and x = qa_payload
               and v = ?vo and ?b1.0 = "append_validation ?ok ?vo" and ?w1.0 = ?w1
               and result = "PList [PStr ''processed'', qa_payload]"
               and ?u2.0 = "[''execute_core_logic'']"]
          vo so core
    by simp
  have b2: "BottomLayer_process ?bo qa_payload world0
              = (Inr (PList [PStr ''finalized'', PList [PStr ''trim'', qa_payload]]),
                 ?bo\<lparr>input_buffer := Some (append_validation ?ok ?vo)\<rparr>,
                 ?w1\<lparr>user := [''finalize_output''],
                      log_records := log_records world0
                        @ map (\<lambda>validator. (LOG_WARNING, output_validator_warning validator))
                            (filter (\<lambda>validator. \<not> validate_output_with ?bo validator
                                       (PList [PStr ''finalized'',
                                               PList [PStr ''trim'', qa_payload]]))
                               (output_validators ?bo))\<rparr>)"
    using process_blocking_then_advisory
            [where f = ?bo and b = ?ok and w = world0 and x = qa_payload
               and v = ?vo and ?b1.0 = "append_validation ?ok ?vo" and ?w1.0 = ?w1
               and result = "PList [PStr ''finalized'', PList [PStr ''trim'', qa_payload]]"
               and ?u2.0 = "[''finalize_output'']"]
          vo so fin
    by simp
  show ?thesis
    unfolding m2 b2 gates vals
    using m1 b1 by (simp add: w0)
qed

section \<open>Properties of the orchestrator\<close>

lemma log_execution_eq:
  "log_execution ev ds self w
     = (self\<lparr>execution_log := execution_log self
               @ [\<lparr> entry_timestamp = clock w (ticks w), event = ev, details = ds \<rparr>]\<rparr>,
        w\<lparr>ticks := Suc (ticks w),
          log_records := log_records w
            @ [(LOG_INFO, ''3-Layer Workflow: '' @ ev @ '' - '' @ str_details ds)]\<rparr>)"
  by (simp add: log_execution_def datetime_now_def logger_info_def)

lemma log_execution_stages:
  assumes "log_execution ev ds self w = (self1, w1)"
  shows "top_layer self1 = top_layer self" and "middle_layer self1 = middle_layer self"
    and "bottom_layer self1 = bottom_layer self"
    and "execution_log self1
           = execution_log self
             @ [\<lparr> entry_timestamp = clock w (ticks w), event = ev, details = ds \<rparr>]"
    and "user w1 = user w"
  using assms by (auto simp: log_execution_eq)

lemma processed_log:
  "execution_log (middle_processed self mid) = execution_log self"
  "execution_log (bottom_processed self bottom) = execution_log self"
  by (simp_all add: middle_processed_def bottom_processed_def)


text \<open>What the \<^verbatim>\<open>try\<close> block leaves in the execution log.\<close>

lemma execute_workflow_try_log:
  assumes "log_execution ''workflow_start'' [(''input_type'', type_name x)] self w = (self1, w1)"
      and "execute_workflow_try tp mp bp self x w = (r, s, w')"
  shows "case r of
           Inl e \<Rightarrow> execution_log s = execution_log self1
         | Inr v \<Rightarrow> \<exists>now. execution_log s = execution_log self1
               @ [\<lparr> entry_timestamp = now, event = ''workflow_complete'',
                     details = [(''output_type'', type_name v)] \<rparr>]"
  using assms
  by (auto simp: execute_workflow_try_def Let_def processed_log log_execution_eq
      split: prod.splits sum.splits)

text \<open>The three ways out of the method.\<close>

lemma execute_workflow_returns:
  assumes "execute_workflow_try tp mp bp self x w = (Inr v, s, w1)"
  shows "execute_workflow tp mp bp self x w = (Inr v, s, w1)"
  using assms by (simp add: execute_workflow_def)

lemma execute_workflow_records:
  assumes "execute_workflow_try tp mp bp self x w = (Inl e, s, w1)"
      and "exn_str e = Inr msg"
  shows "execute_workflow tp mp bp self x w
           = (Inl e, log_execution ''workflow_error'' [(''error'', msg)] s w1)"
  using assms by (simp add: execute_workflow_def split: prod.splits)

lemma execute_workflow_str_raises:
  assumes "execute_workflow_try tp mp bp self x w = (Inl e, s, w1)"
      and "exn_str e = Inl e'"
  shows "execute_workflow tp mp bp self x w = (Inl e', s, w1)"
  using assms by (simp add: execute_workflow_def)

lemma try_top_fails:
  assumes "log_execution ''workflow_start'' [(''input_type'', type_name x)] self w = (self1, w1)"
      and "tp (top_layer self) x w1 = (Inl e, top1, w2)"
  shows "fst (execute_workflow_try tp mp bp self x w) = Inl e"
  using assms log_execution_stages(1) [OF assms(1)]
  by (simp add: execute_workflow_try_def)

lemma try_middle_fails:
  assumes "log_execution ''workflow_start'' [(''input_type'', type_name x)] self w = (self1, w1)"
      and "tp (top_layer self) x w1 = (Inr top_result, top1, w2)"
      and "create_output_buffer top1 MIDDLE top_result w2 = (buf1, top2, w3)"
      and "mp (set_input_buffer (middle_layer self) buf1) top_result w3 = (Inl e, mid1, w4)"
  shows "fst (execute_workflow_try tp mp bp self x w) = Inl e"
  using assms log_execution_stages(1,2) [OF assms(1)]
  by (simp add: execute_workflow_try_def)

lemma try_bottom_fails:
  assumes "log_execution ''workflow_start'' [(''input_type'', type_name x)] self w = (self1, w1)"
      and "tp (top_layer self) x w1 = (Inr top_result, top1, w2)"
      and "create_output_buffer top1 MIDDLE top_result w2 = (buf1, top2, w3)"
      and "mp (set_input_buffer (middle_layer self) buf1) top_result w3
             = (Inr middle_result, mid1, w4)"
      and "create_output_buffer mid1 BOTTOM middle_result w4 = (buf2, mid2, w5)"
      and "bp (set_input_buffer (bottom_layer self) buf2) middle_result w5 = (Inl e, bot1, w6)"
  shows "fst (execute_workflow_try tp mp bp self x w) = Inl e"
  using assms log_execution_stages(1,2,3) [OF assms(1)]
  by (simp add: execute_workflow_try_def middle_processed_def)

text \<open>
  A failing \<^verbatim>\<open>try\<close> block whose exception has a text: the exception is recorded as
  \<^verbatim>\<open>workflow_error\<close> after the \<^verbatim>\<open>workflow_start\<close> entry, and it is the one re-raised.
\<close>

lemma failure_recorded:
  assumes "log_execution ''workflow_start'' [(''input_type'', type_name x)] self w = (self1, w1)"
      and "fst (execute_workflow_try tp mp bp self x w) = Inl e"
      and "exn_str e = Inr msg"
      and "execute_workflow tp mp bp self x w = (r, self', w')"
  shows "r = Inl e \<and> butlast (execution_log self') = execution_log self1
       \<and> event (last (execution_log self')) = ''workflow_error''
       \<and> details (last (execution_log self')) = [(''error'', msg)]"
proof -
  obtain st wt where t: "execute_workflow_try tp mp bp self x w = (Inl e, st, wt)"
    using assms(2) by (cases "execute_workflow_try tp mp bp self x w") auto
  from execute_workflow_try_log [OF assms(1) t]
  have "execution_log st = execution_log self1" by simp
  with execute_workflow_records [OF t assms(3)] assms(4) show ?thesis
    by (auto simp: log_execution_eq)
qed

text \<open>
  Claim C4, as amended. Whatever the input and the three stages, a run of
  \<^verbatim>\<open>execute_workflow\<close> first appends \<^verbatim>\<open>workflow_start\<close> to the execution log. When it
  returns a value \<open>v\<close>, the only other entry it has appended is \<^verbatim>\<open>workflow_complete\<close>: a
  normal return never comes with an error entry. When the \<^verbatim>\<open>process\<close> of the top, the
  middle or the bottom stage raises an exception \<open>e\<close> whose text \<^verbatim>\<open>str(e)\<close> can be computed,
  the run appends a \<^verbatim>\<open>workflow_error\<close> entry with that text and raises that same \<open>e\<close>: no
  such failure of a stage is swallowed.
\<close>

theorem execute_workflow_error_policy:
  assumes "log_execution ''workflow_start'' [(''input_type'', type_name x)] self w = (self1, w1)"
      and "execute_workflow tp mp bp self x w = (r, self', w')"
  shows "execution_log self1
           = execution_log self
             @ [\<lparr> entry_timestamp = clock w (ticks w), event = ''workflow_start'',
                   details = [(''input_type'', type_name x)] \<rparr>]
       \<and> (r = Inr v \<longrightarrow>
            butlast (execution_log self') = execution_log self1
            \<and> event (last (execution_log self')) = ''workflow_complete''
            \<and> details (last (execution_log self')) = [(''output_type'', type_name v)])
       \<and> (tp (top_layer self) x w1 = (Inl e, top1, w2) \<and> exn_str e = Inr msg \<longrightarrow>
            r = Inl e
            \<and> butlast (execution_log self') = execution_log self1
            \<and> event (last (execution_log self')) = ''workflow_error''
            \<and> details (last (execution_log self')) = [(''error'', msg)])
       \<and> (tp (top_layer self) x w1 = (Inr top_result, top1, w2)
          \<and> create_output_buffer top1 MIDDLE top_result w2 = (buf1, top2, w3)
          \<and> mp (set_input_buffer (middle_layer self) buf1) top_result w3 = (Inl e, mid1, w4)
          \<and> exn_str e = Inr msg \<longrightarrow>
            r = Inl e
            \<and> butlast (execution_log self') = execution_log self1
            \<and> event (last (execution_log self')) = ''workflow_error''
            \<and> details (last (execution_log self')) = [(''error'', msg)])
       \<and> (tp (top_layer self) x w1 = (Inr top_result, top1, w2)
          \<and> create_output_buffer top1 MIDDLE top_result w2 = (buf1, top2, w3)
          \<and> mp (set_input_buffer (middle_layer self) buf1) top_result w3
              = (Inr middle_result, mid1, w4)
          \<and> create_output_buffer mid1 BOTTOM middle_result w4 = (buf2, mid2, w5)
          \<and> bp (set_input_buffer (bottom_layer self) buf2) middle_result w5 = (Inl e, bot1, w6)
          \<and> exn_str e = Inr msg \<longrightarrow>
            r = Inl e
            \<and> butlast (execution_log self') = execution_log self1
            \<and> event (last (execution_log self')) = ''workflow_error''
            \<and> details (last (execution_log self')) = [(''error'', msg)])"
proof -
  have start: "execution_log self1
           = execution_log self
             @ [\<lparr> entry_timestamp = clock w (ticks w), event = ''workflow_start'',
                   details = [(''input_type'', type_name x)] \<rparr>]"
    by (rule log_execution_stages(4) [OF assms(1)])
  have returned: "butlast (execution_log self') = execution_log self1
            \<and> event (last (execution_log self')) = ''workflow_complete''
            \<and> details (last (execution_log self')) = [(''output_type'', type_name v)]"
    if "r = Inr v"
  proof -
    obtain rt st wt where t: "execute_workflow_try tp mp bp self x w = (rt, st, wt)"
      by (cases "execute_workflow_try tp mp bp self x w") auto
    show ?thesis
    proof (cases rt)
      case (Inl e0)
      with t assms(2) that show ?thesis
        by (cases "exn_str e0") (auto simp: execute_workflow_def split: prod.splits)
    next
      case (Inr v0)
      with execute_workflow_try_log [OF assms(1) t] obtain now
        where "execution_log st = execution_log self1
               @ [\<lparr> entry_timestamp = now, event = ''workflow_complete'',
                     details = [(''output_type'', type_name v0)] \<rparr>]"
        by auto
      with Inr t assms(2) that execute_workflow_returns [of tp mp bp self x w v0 st wt]
      show ?thesis by auto
    qed
  qed
  have top_f: "r = Inl e
            \<and> butlast (execution_log self') = execution_log self1
            \<and> event (last (execution_log self')) = ''workflow_error''
            \<and> details (last (execution_log self')) = [(''error'', msg)]"
    if "tp (top_layer self) x w1 = (Inl e, top1, w2)" "exn_str e = Inr msg"
    using failure_recorded
            [OF assms(1)
                try_top_fails [where tp = tp and mp = mp and bp = bp, OF assms(1) that(1)]
                that(2) assms(2)]
    by simp
  have mid_f: "r = Inl e
            \<and> butlast (execution_log self') = execution_log self1
            \<and> event (last (execution_log self')) = ''workflow_error''
            \<and> details (last (execution_log self')) = [(''error'', msg)]"
    if "tp (top_layer self) x w1 = (Inr top_result, top1, w2)"
       "create_output_buffer top1 MIDDLE top_result w2 = (buf1, top2, w3)"
       "mp (set_input_buffer (middle_layer self) buf1) top_result w3 = (Inl e, mid1, w4)"
       "exn_str e = Inr msg"
    using failure_recorded
            [OF assms(1)
                try_middle_fails [where tp = tp and mp = mp and bp = bp,
                                  OF assms(1) that(1,2,3)]
                that(4) assms(2)]
    by simp
  have bot_f: "r = Inl e
            \<and> butlast (execution_log self') = execution_log self1
            \<and> event (last (execution_log self')) = ''workflow_error''
            \<and> details (last (execution_log self')) = [(''error'', msg)]"
    if "tp (top_layer self) x w1 = (Inr top_result, top1, w2)"
       "create_output_buffer top1 MIDDLE top_result w2 = (buf1, top2, w3)"
       "mp (set_input_buffer (middle_layer self) buf1) top_result w3
              = (Inr middle_result, mid1, w4)"
       "create_output_buffer mid1 BOTTOM middle_result w4 = (buf2, mid2, w5)"
       "bp (set_input_buffer (bottom_layer self) buf2) middle_result w5 = (Inl e, bot1, w6)"
       "exn_str e = Inr msg"
    using failure_recorded
            [OF assms(1)
                try_bottom_fails [where tp = tp and mp = mp and bp = bp,
                                  OF assms(1) that(1,2,3,4,5)]
                that(6) assms(2)]
    by simp
  from start returned top_f mid_f bot_f show ?thesis by blast
qed

theorem execute_workflow_error_policy_witness:
  "fst (execute_workflow FactCheckAuditor_process MiddleLayer_process BottomLayer_process
          orchestrator_blocked qa_payload world0)
     = Inl (Exn ''ValueError''
              (Inr ''Input validation failed: Buffer validation error: no text''))
   \<and> map event (butlast (execution_log (fst (snd
         (execute_workflow FactCheckAuditor_process MiddleLayer_process BottomLayer_process
            orchestrator_blocked qa_payload world0)))))
       = [''workflow_start'']
   \<and> event (last (execution_log (fst (snd
         (execute_workflow FactCheckAuditor_process MiddleLayer_process BottomLayer_process
            orchestrator_blocked qa_payload world0)))))
       = ''workflow_error''
   \<and> details (last (execution_log (fst (snd
         (execute_workflow FactCheckAuditor_process MiddleLayer_process BottomLayer_process
            orchestrator_blocked qa_payload world0)))))
       = [(''error'', ''Input validation failed: Buffer validation error: no text'')]
   \<and> fst (execute_workflow FactCheckAuditor_process MiddleLayer_process BottomLayer_process
          orchestrator_top_raises qa_payload world0)
       = Inl (Exn ''RuntimeError'' (Inr ''planner unavailable''))
   \<and> details (last (execution_log (fst (snd
         (execute_workflow FactCheckAuditor_process MiddleLayer_process BottomLayer_process
            orchestrator_top_raises qa_payload world0)))))
       = [(''error'', ''planner unavailable'')]
   \<and> fst (execute_workflow FactCheckAuditor_process MiddleLayer_process BottomLayer_process
          orchestrator_bottom_raises qa_payload world0)
       = Inl (Exn ''RuntimeError'' (Inr ''revision failed''))
   \<and> details (last (execution_log (fst (snd
         (execute_workflow FactCheckAuditor_process MiddleLayer_process BottomLayer_process
            orchestrator_bottom_raises qa_payload world0)))))
       = [(''error'', ''revision failed'')]
   \<and> event (last (execution_log (fst (snd
         (execute_workflow FactCheckAuditor_process MiddleLayer_process BottomLayer_process
            orchestrator0 qa_payload world0)))))
       = ''workflow_complete''"
proof -
  let ?run = "execute_workflow FactCheckAuditor_process MiddleLayer_process BottomLayer_process"
  let ?start = "\<lambda>s. log_execution ''workflow_start'' [(''input_type'', type_name qa_payload)]
                     s world0"
  have pair: "?run s qa_payload world0
                = (fst (?run s qa_payload world0), fst (snd (?run s qa_payload world0)),
                   snd (snd (?run s qa_payload world0)))" for s
    by simp
  have st: "?start s = (fst (?start s), snd (?start s))" for s
    by simp
  txt \<open>The middle stage is blocked by its inbound validation.\<close>
  let ?Et = "''Input validation failed: Buffer validation error: no text''"
  let ?E = "Exn ''ValueError'' (Inr ?Et)"
  let ?b2 = "FactCheckAuditor_process (top_layer orchestrator_blocked) qa_payload
               (snd (?start orchestrator_blocked))"
  let ?b3 = "create_output_buffer (fst (snd ?b2)) MIDDLE opaque_payload (snd (snd ?b2))"
  let ?b4 = "MiddleLayer_process
               (set_input_buffer (middle_layer orchestrator_blocked) (fst ?b3)) opaque_payload
               (snd (snd ?b3))"
  have "fst ?b2 = Inr opaque_payload" by code_simp
  then have b2: "?b2 = (Inr opaque_payload, fst (snd ?b2), snd (snd ?b2))"
    by (simp add: prod_eq_iff)
  have b3: "?b3 = (fst ?b3, fst (snd ?b3), snd (snd ?b3))" by simp
  have "fst ?b4 = Inl ?E" by code_simp
  then have b4: "?b4 = (Inl ?E, fst (snd ?b4), snd (snd ?b4))"
    by (simp add: prod_eq_iff)
  have tE: "exn_str ?E = Inr ?Et" by simp
  note blocked = execute_workflow_error_policy
      [where tp = FactCheckAuditor_process and mp = MiddleLayer_process
         and bp = BottomLayer_process and self = orchestrator_blocked and w = world0
         and x = qa_payload and e = ?E and msg = ?Et and top_result = opaque_payload
         and ?top1.0 = "fst (snd ?b2)" and ?w2.0 = "snd (snd ?b2)"
         and ?buf1.0 = "fst ?b3" and ?top2.0 = "fst (snd ?b3)" and ?w3.0 = "snd (snd ?b3)"
         and ?mid1.0 = "fst (snd ?b4)" and ?w4.0 = "snd (snd ?b4)",
       OF st pair]
  have r_blocked:
    "fst (?run orchestrator_blocked qa_payload world0) = Inl ?E
     \<and> butlast (execution_log (fst (snd (?run orchestrator_blocked qa_payload world0))))
         = execution_log (fst (?start orchestrator_blocked))
     \<and> event (last (execution_log (fst (snd (?run orchestrator_blocked qa_payload world0)))))
         = ''workflow_error''
     \<and> details (last (execution_log (fst (snd (?run orchestrator_blocked qa_payload world0)))))
         = [(''error'', ?Et)]"
    using blocked b2 b3 b4 tE by blast
  have l_blocked:
    "execution_log (fst (?start orchestrator_blocked))
       = execution_log orchestrator_blocked
         @ [\<lparr> entry_timestamp = clock world0 (ticks world0), event = ''workflow_start'',
               details = [(''input_type'', type_name qa_payload)] \<rparr>]"
    using blocked by blast
  txt \<open>The hook of the top stage raises.\<close>
  let ?P = "Exn ''RuntimeError'' (Inr ''planner unavailable'')"
  let ?t2 = "FactCheckAuditor_process (top_layer orchestrator_top_raises) qa_payload
               (snd (?start orchestrator_top_raises))"
  have "fst ?t2 = Inl ?P" by code_simp
  then have t2: "?t2 = (Inl ?P, fst (snd ?t2), snd (snd ?t2))"
    by (simp add: prod_eq_iff)
  have tP: "exn_str ?P = Inr ''planner unavailable''" by simp
  note top_raises = execute_workflow_error_policy
      [where tp = FactCheckAuditor_process and mp = MiddleLayer_process
         and bp = BottomLayer_process and self = orchestrator_top_raises and w = world0
         and x = qa_payload and e = ?P and msg = "''planner unavailable''"
         and ?top1.0 = "fst (snd ?t2)" and ?w2.0 = "snd (snd ?t2)",
       OF st pair]
  have r_top:
    "fst (?run orchestrator_top_raises qa_payload world0) = Inl ?P
     \<and> details (last (execution_log (fst (snd (?run orchestrator_top_raises qa_payload world0)))))
         = [(''error'', ''planner unavailable'')]"
    using top_raises t2 tP by blast
  txt \<open>The hook of the bottom stage raises.\<close>
  let ?K = "Exn ''RuntimeError'' (Inr ''revision failed'')"
  let ?T = "PList [PStr ''orchestrated'', qa_payload]"
  let ?M = "PList [PStr ''processed'', ?T]"
  let ?c2 = "FactCheckAuditor_process (top_layer orchestrator_bottom_raises) qa_payload
               (snd (?start orchestrator_bottom_raises))"
  let ?c3 = "create_output_buffer (fst (snd ?c2)) MIDDLE ?T (snd (snd ?c2))"
  let ?c4 = "MiddleLayer_process
               (set_input_buffer (middle_layer orchestrator_bottom_raises) (fst ?c3)) ?T
               (snd (snd ?c3))"
  let ?c5 = "create_output_buffer (fst (snd ?c4)) BOTTOM ?M (snd (snd ?c4))"
  let ?c6 = "BottomLayer_process
               (set_input_buffer (bottom_layer orchestrator_bottom_raises) (fst ?c5)) ?M
               (snd (snd ?c5))"
  have "fst ?c2 = Inr ?T" by code_simp
  then have c2: "?c2 = (Inr ?T, fst (snd ?c2), snd (snd ?c2))"
    by (simp add: prod_eq_iff)
  have c3: "?c3 = (fst ?c3, fst (snd ?c3), snd (snd ?c3))" by simp
  have "fst ?c4 = Inr ?M" by code_simp
  then have c4: "?c4 = (Inr ?M, fst (snd ?c4), snd (snd ?c4))"
    by (simp add: prod_eq_iff)
  have c5: "?c5 = (fst ?c5, fst (snd ?c5), snd (snd ?c5))" by simp
  have "fst ?c6 = Inl ?K" by code_simp
  then have c6: "?c6 = (Inl ?K, fst (snd ?c6), snd (snd ?c6))"
    by (simp add: prod_eq_iff)
  have tK: "exn_str ?K = Inr ''revision failed''" by simp
  note bottom_raises = execute_workflow_error_policy
      [where tp = FactCheckAuditor_process and mp = MiddleLayer_process
         and bp = BottomLayer_process and self = orchestrator_bottom_raises and w = world0
         and x = qa_payload and e = ?K and msg = "''revision failed''"
         and top_result = ?T and middle_result = ?M
         and ?top1.0 = "fst (snd ?c2)" and ?w2.0 = "snd (snd ?c2)"
         and ?buf1.0 = "fst ?c3" and ?top2.0 = "fst (snd ?c3)" and ?w3.0 = "snd (snd ?c3)"
         and ?mid1.0 = "fst (snd ?c4)" and ?w4.0 = "snd (snd ?c4)"
         and ?buf2.0 = "fst ?c5" and ?mid2.0 = "fst (snd ?c5)" and ?w5.0 = "snd (snd ?c5)"
         and ?bot1.0 = "fst (snd ?c6)" and ?w6.0 = "snd (snd ?c6)",
       OF st pair]
  have r_bottom:
    "fst (?run orchestrator_bottom_raises qa_payload world0) = Inl ?K
     \<and> details (last (execution_log
           (fst (snd (?run orchestrator_bottom_raises qa_payload world0)))))
         = [(''error'', ''revision failed'')]"
    using bottom_raises c2 c3 c4 c5 c6 tK by blast
  txt \<open>A run that returns.\<close>
  have ok: "fst (?run orchestrator0 qa_payload world0)
          = Inr (PList [PStr ''finalized'', PList [PStr ''trim'', ?M]])"
    by code_simp
  have d_ok: "event (last (execution_log (fst (snd (?run orchestrator0 qa_payload world0)))))
                = ''workflow_complete''"
    using execute_workflow_error_policy
      [where tp = FactCheckAuditor_process and mp = MiddleLayer_process
         and bp = BottomLayer_process and self = orchestrator0 and w = world0
         and x = qa_payload and v = "PList [PStr ''finalized'', PList [PStr ''trim'', ?M]]",
       OF st pair] ok
    by blast
  have l0: "execution_log orchestrator_blocked = []"
    by (simp add: orchestrator_blocked_def orchestrator0_def)
  have "map event (butlast (execution_log
           (fst (snd (?run orchestrator_blocked qa_payload world0))))) = [''workflow_start'']"
    using r_blocked l_blocked l0 by simp
  with r_blocked r_top r_bottom d_ok show ?thesis by simp
qed

text \<open>
  Claim C4 as the specification words it, that every exception is recorded as
  \<^verbatim>\<open>workflow_error\<close> and re-raised unchanged, fails when the \<^verbatim>\<open>__str__\<close> of the exception
  raises: the handler's \<^verbatim>\<open>str(e)\<close> raises before anything is logged, the log ends with
  \<^verbatim>\<open>workflow_start\<close>, and the caller gets the exception of \<^verbatim>\<open>str(e)\<close>, not the one the
  stage raised.
\<close>

theorem execute_workflow_error_policy_counterexample:
  "fst (FactCheckAuditor_process (top_layer orchestrator_unprintable) qa_payload
          (snd (log_execution ''workflow_start'' [(''input_type'', type_name qa_payload)]
                  orchestrator_unprintable world0)))
     = Inl (Exn ''SchemaError'' (Inl (Exn ''RuntimeError'' (Inr ''no text''))))
   \<and> fst (execute_workflow FactCheckAuditor_process MiddleLayer_process BottomLayer_process
            orchestrator_unprintable qa_payload world0)
       = Inl (Exn ''RuntimeError'' (Inr ''no text''))
   \<and> map event (execution_log (fst (snd
         (execute_workflow FactCheckAuditor_process MiddleLayer_process BottomLayer_process
            orchestrator_unprintable qa_payload world0))))
       = [''workflow_start'']"
proof -
  have "fst (FactCheckAuditor_process (top_layer orchestrator_unprintable) qa_payload
          (snd (log_execution ''workflow_start'' [(''input_type'', type_name qa_payload)]
                  orchestrator_unprintable world0)))
     = Inl (Exn ''SchemaError'' (Inl (Exn ''RuntimeError'' (Inr ''no text''))))"
    by code_simp
  moreover have "fst (execute_workflow FactCheckAuditor_process MiddleLayer_process
            BottomLayer_process orchestrator_unprintable qa_payload world0)
       = Inl (Exn ''RuntimeError'' (Inr ''no text''))"
    by code_simp
  moreover have "map event (execution_log (fst (snd
         (execute_workflow FactCheckAuditor_process MiddleLayer_process BottomLayer_process
            orchestrator_unprintable qa_payload world0))))
       = [''workflow_start'']"
    by code_simp
  ultimately show ?thesis by simp
qed



end
